theory Spec2Isabelle
  imports Complex_Main "HOL-Library.Char_ord" "HOL-Library.List_Lexorder" "HOL-Library.Multiset"
begin

section \<open>Text\<close>

text \<open>
  A Python \<open>str\<close> is modelled as a HOL \<open>string\<close>, whose 256 characters are read
  as the characters of Windows-1252: ASCII below 0x80, and for instance the ellipsis at
  0x85, the em dash at 0x97 and the no-break space at 0xA0. So the two literals of the
  source that are outside ASCII, the ellipsis and the em dash, are one character each, as
  in Python. A character of Unicode that has no place in Windows-1252 is outside the model.

  \<open>is_space\<close> is the white space of \<open>str.strip\<close>, \<open>str.split\<close> and of \<open>\s\<close>
  in the \<open>re\<close> module (\<open>str.isspace\<close>): the ASCII white space and, of the
  characters outside ASCII, the no-break space. The classes \<open>[a-z]\<close>, \<open>[0-9]\<close>
  and their forms under \<open>re.IGNORECASE\<close> hold ASCII characters only: the four letters
  outside ASCII that Python lets match an ASCII letter (U+0130, U+0131, U+017F, U+212A)
  are not characters of Windows-1252. \<open>lower_char\<close> and \<open>upper_char\<close> change the case
  of the ASCII letters; the letters outside ASCII keep their case here, which no pattern
  of the scripts can tell.
\<close>

definition is_space :: "char \<Rightarrow> bool" where
  "is_space c = (c \<in> set [CHR 0x09, CHR 0x0A, CHR 0x0B, CHR 0x0C, CHR 0x0D,
                            CHR 0x1C, CHR 0x1D, CHR 0x1E, CHR 0x1F, CHR '' '', CHR 0xA0])"


definition is_lower :: "char \<Rightarrow> bool" where
  "is_lower c = (c \<in> set ''abcdefghijklmnopqrstuvwxyz'')"

definition is_upper :: "char \<Rightarrow> bool" where
  "is_upper c = (c \<in> set ''ABCDEFGHIJKLMNOPQRSTUVWXYZ'')"

definition is_digit :: "char \<Rightarrow> bool" where
  "is_digit c = (c \<in> set ''0123456789'')"

definition ellipsis :: char where
  "ellipsis = CHR 0x85"

definition em_dash :: char where
  "em_dash = CHR 0x97"

text \<open>Removing the characters of a class at both ends, as \<open>s.strip()\<close> does for
  white space.\<close>

definition trim :: "('a \<Rightarrow> bool) \<Rightarrow> 'a list \<Rightarrow> 'a list" where
  "trim P s = rev (dropWhile P (rev (dropWhile P s)))"

definition strip :: "string \<Rightarrow> string" where
  "strip s = trim is_space s"

text \<open>\<open>s.lower()\<close> and the upper-case counterpart used by \<open>s.title()\<close>.\<close>

definition lower_char :: "char \<Rightarrow> char" where
  "lower_char c =
     (case map_of (zip ''ABCDEFGHIJKLMNOPQRSTUVWXYZ'' ''abcdefghijklmnopqrstuvwxyz'') c of
        None \<Rightarrow> c | Some l \<Rightarrow> l)"

definition upper_char :: "char \<Rightarrow> char" where
  "upper_char c =
     (case map_of (zip ''abcdefghijklmnopqrstuvwxyz'' ''ABCDEFGHIJKLMNOPQRSTUVWXYZ'') c of
        None \<Rightarrow> c | Some u \<Rightarrow> u)"

definition lower :: "string \<Rightarrow> string" where
  "lower s = map lower_char s"

text \<open>\<open>s.startswith(p)\<close>.\<close>

definition startswith :: "string \<Rightarrow> string \<Rightarrow> bool" where
  "startswith s p = (take (length p) s = p)"

section \<open>create\_company.py: slugify\<close>

text \<open>
  \<^verbatim>\<open>
  def slugify(s: str) -> str:
      s = s.strip().lower()
      s = s.replace("&", "and")
      s = re.sub(r"[^a-z0-9]+", "-", s)
      s = re.sub(r"(^-+|-+$)", "", s)
      return s or "company"
  \<close>
\<close>

text \<open>\<open>s.replace("&", "and")\<close>.\<close>

definition replace_amp :: "string \<Rightarrow> string" where
  "replace_amp s = concat (map (\<lambda>c. if c = CHR ''&'' then ''and'' else [c]) s)"

definition is_slug_alnum :: "char \<Rightarrow> bool" where
  "is_slug_alnum c = (is_lower c \<or> is_digit c)"

text \<open>\<open>re.sub(r"[^a-z0-9]+", "-", s)\<close>: every maximal run of characters outside
  \<open>[a-z0-9]\<close> becomes one hyphen.\<close>

function sub_non_alnum :: "string \<Rightarrow> string" where
  "sub_non_alnum [] = []"
| "sub_non_alnum (c # cs) =
     (if is_slug_alnum c then c # sub_non_alnum cs
      else CHR ''-'' # sub_non_alnum (dropWhile (\<lambda>x. \<not> is_slug_alnum x) cs))"
  by pat_completeness auto
termination
  by (relation "measure length") (auto simp: less_Suc_eq_le length_dropWhile_le)

text \<open>\<open>re.sub(r"(^-+|-+$)", "", s)\<close>: the hyphens at the start and the hyphens at the
  end are removed. (The argument is the result of the previous substitution and holds no
  newline, so \<open>$\<close> is the end of the string.)\<close>

definition is_hyphen :: "char \<Rightarrow> bool" where
  "is_hyphen c = (c = CHR ''-'')"

definition trim_hyphens :: "string \<Rightarrow> string" where
  "trim_hyphens s = trim is_hyphen s"

definition slugify :: "string \<Rightarrow> string" where
  "slugify s =
     (let s1 = lower (strip s);
          s2 = replace_amp s1;
          s3 = sub_non_alnum s2;
          s4 = trim_hyphens s3
      in if s4 = [] then ''company'' else s4)"

text \<open>The slug format: lower-case letters, digits and hyphens, not empty, no hyphen at
  either end.\<close>

definition is_slug_char :: "char \<Rightarrow> bool" where
  "is_slug_char c = (is_lower c \<or> is_digit c \<or> is_hyphen c)"

definition valid_slug :: "string \<Rightarrow> bool" where
  "valid_slug s =
     (s \<noteq> [] \<and> list_all is_slug_char s \<and> \<not> is_hyphen (hd s) \<and> \<not> is_hyphen (last s))"

section \<open>JSON values and the repository\<close>

text \<open>
  The value that \<open>json.loads\<close> returns: \<open>None\<close>, a \<open>bool\<close>, an \<open>int\<close>, a
  \<open>float\<close> (by the real it denotes), a \<open>str\<close>, a \<open>list\<close> or a \<open>dict\<close>. A
  \<open>dict\<close> keeps its keys in insertion order and is an association list; a file read
  by \<open>json.loads\<close> has each key once.
\<close>

datatype json =
    JNull
  | JBool bool
  | JInt int
  | JFloat real
  | JStr string
  | JArr "json list"
  | JObj "(string \<times> json) list"

type_synonym dict = "(string \<times> json) list"

text \<open>Python's truth value of an object, as \<open>or\<close>, \<open>if\<close> and \<open>bool()\<close> take it.\<close>

fun truthy :: "json \<Rightarrow> bool" where
  "truthy JNull = False"
| "truthy (JBool b) = b"
| "truthy (JInt i) = (i \<noteq> 0)"
| "truthy (JFloat r) = (r \<noteq> 0)"
| "truthy (JStr s) = (s \<noteq> [])"
| "truthy (JArr xs) = (xs \<noteq> [])"
| "truthy (JObj d) = (d \<noteq> [])"

text \<open>\<open>a or b\<close>.\<close>

definition py_or :: "json \<Rightarrow> json \<Rightarrow> json" where
  "py_or a b = (if truthy a then a else b)"

text \<open>\<open>d.get(k)\<close>, \<open>d.get(k, default)\<close>, \<open>d[k] = v\<close> and \<open>d.setdefault(k, v)\<close>
  on a \<open>dict\<close>.\<close>

definition dict_get :: "dict \<Rightarrow> string \<Rightarrow> json" where
  "dict_get d k = (case map_of d k of None \<Rightarrow> JNull | Some v \<Rightarrow> v)"

definition dict_get_default :: "dict \<Rightarrow> string \<Rightarrow> json \<Rightarrow> json" where
  "dict_get_default d k dflt = (case map_of d k of None \<Rightarrow> dflt | Some v \<Rightarrow> v)"

fun dict_set :: "dict \<Rightarrow> string \<Rightarrow> json \<Rightarrow> dict" where
  "dict_set [] k v = [(k, v)]"
| "dict_set ((k', v') # d) k v = (if k' = k then (k, v) # d else (k', v') # dict_set d k v)"

definition dict_setdefault :: "dict \<Rightarrow> string \<Rightarrow> json \<Rightarrow> dict" where
  "dict_setdefault d k v = (case map_of d k of None \<Rightarrow> d @ [(k, v)] | Some _ \<Rightarrow> d)"

text \<open>Iterating over an object (\<open>for x in v\<close>): a list gives its elements, a string its
  characters, a \<open>dict\<close> its keys; anything else raises \<open>TypeError\<close>.\<close>

datatype error =
    ValueError string
  | FileNotFoundError string
  | FileExistsError
  | NotADirectoryError
  | JSONDecodeError
  | AttributeError
  | TypeError
  | RequestError

definition py_iter :: "json \<Rightarrow> error + json list" where
  "py_iter v =
     (case v of
        JArr xs \<Rightarrow> Inr xs
      | JStr s \<Rightarrow> Inr (map (\<lambda>c. JStr [c]) s)
      | JObj d \<Rightarrow> Inr (map (\<lambda>kv. JStr (fst kv)) d)
      | _ \<Rightarrow> Inl TypeError)"

text \<open>
  The part of the repository the scripts read and write. \<open>entries\<close> are the entries of
  the repository root in the order \<open>ROOT.iterdir()\<close> lists them: a file, or a directory
  with the text of its \<open>index.html\<close> when it has one. \<open>sites_file\<close> is
  \<open>assets/sites.json\<close>: missing, not readable as JSON, or holding a JSON value (the
  value \<open>json.loads\<close> returns for it, which is the value \<open>json.dumps\<close> wrote).
  \<open>shots\<close> are the images in \<open>assets/screenshots\<close>, when that directory exists.
  \<open>written\<close> records every write to the file system, in order.
\<close>

datatype node = File | Dir "string option"

datatype manifest = Missing | Corrupt | Doc json

datatype event =
    Mkdir string
  | CopyTree string string
  | WriteText string string
  | WriteJson string json
  | SaveImage string
  | Unlink string

record world =
  entries :: "(string \<times> node) list"
  sites_file :: manifest
  shots :: "string list option"
  written :: "event list"

definition path_exists :: "world \<Rightarrow> string \<Rightarrow> bool" where
  "path_exists w p = (map_of (entries w) p \<noteq> None)"

text \<open>\<open>(ROOT / "assets").mkdir(parents=True, exist_ok=True)\<close>.\<close>

definition mkdir_assets :: "world \<Rightarrow> error + world" where
  "mkdir_assets w =
     (case map_of (entries w) ''assets'' of
        Some (Dir _) \<Rightarrow> Inr w
      | Some File \<Rightarrow> Inl FileExistsError
      | None \<Rightarrow> Inr (w\<lparr>entries := entries w @ [(''assets'', Dir None)],
                         written := written w @ [Mkdir ''assets'']\<rparr>))"

text \<open>\<open>SITES_FILE.write_text(json.dumps(data, indent=2, ensure_ascii=False) + "\n")\<close>.\<close>

definition write_sites :: "json \<Rightarrow> world \<Rightarrow> world" where
  "write_sites data w =
     w\<lparr>sites_file := Doc data, written := written w @ [WriteJson ''assets/sites.json'' data]\<rparr>"

section \<open>archive\_company.py\<close>

text \<open>
  \<^verbatim>\<open>
  def parse_issue(issue_title: str, issue_body: str):
      title = (issue_title or "").strip()
      body = (issue_body or "").strip()
      action = None
      if title.lower().startswith("archive company:"):
          action = "archive"
      elif title.lower().startswith("restore company:"):
          action = "restore"
      m = re.search(r"\*\*Company id:\*\*\s*([a-z0-9\-]+)", body, flags=re.IGNORECASE)
      company_id = (m.group(1).strip() if m else "")
      if not action or not company_id:
          raise ValueError("Could not parse action or **Company id:** from issue.")
      return action, company_id
  \<close>
\<close>

text \<open>A literal pattern matched at the start of \<open>s\<close> under \<open>re.IGNORECASE\<close>; the result
  is the text after the match.\<close>

fun match_ci :: "string \<Rightarrow> string \<Rightarrow> string option" where
  "match_ci [] s = Some s"
| "match_ci (p # ps) [] = None"
| "match_ci (p # ps) (c # cs) = (if lower_char c = lower_char p then match_ci ps cs else None)"

text \<open>\<open>re.search\<close>: the match at the leftmost position where the pattern matches.\<close>

fun re_search :: "(string \<Rightarrow> 'a option) \<Rightarrow> string \<Rightarrow> 'a option" where
  "re_search m [] = m []"
| "re_search m (c # cs) = (case m (c # cs) of Some g \<Rightarrow> Some g | None \<Rightarrow> re_search m cs)"

text \<open>The class \<open>[a-z0-9\-]\<close> under \<open>re.IGNORECASE\<close>, which also takes the upper-case
  letters.\<close>

definition is_id_char :: "char \<Rightarrow> bool" where
  "is_id_char c = (is_lower c \<or> is_upper c \<or> is_digit c \<or> is_hyphen c)"

text \<open>The pattern \<open>\*\*Company id:\*\*\s*([a-z0-9\-]+)\<close> at the start of \<open>s\<close>; the
  result is group 1.\<close>

definition company_id_at :: "string \<Rightarrow> string option" where
  "company_id_at s =
     (case match_ci ''**Company id:**'' s of
        None \<Rightarrow> None
      | Some r \<Rightarrow>
          (let g = takeWhile is_id_char (dropWhile is_space r)
           in if g = [] then None else Some g))"

definition parse_issue :: "string \<Rightarrow> string \<Rightarrow> error + (string \<times> string)" where
  "parse_issue issue_title issue_body =
     (let title = strip issue_title;
          body = strip issue_body;
          action = (if startswith (lower title) ''archive company:'' then ''archive''
                    else if startswith (lower title) ''restore company:'' then ''restore''
                    else []);
          company_id = (case re_search company_id_at body of
                          Some g \<Rightarrow> strip g | None \<Rightarrow> [])
      in if action = [] \<or> company_id = []
         then Inl (ValueError ''Could not parse action or **Company id:** from issue.'')
         else Inr (action, company_id))"

text \<open>
  \<^verbatim>\<open>
      found = False
      for s in sites:
          if s.get("id") == company_id:
              if action == "archive":
                  s["archived"] = True
              else:
                  s["archived"] = False
              found = True
              break
  \<close>
  The loop returns the updated list when an entry was found, \<open>None\<close> when none was, and
  the \<open>AttributeError\<close> of \<open>s.get\<close> on an element that is not a \<open>dict\<close>.
\<close>

fun set_archived :: "string \<Rightarrow> string \<Rightarrow> json list \<Rightarrow> error + json list option" where
  "set_archived action company_id [] = Inr None"
| "set_archived action company_id (s # ss) =
     (case s of
        JObj d \<Rightarrow>
          if dict_get d ''id'' = JStr company_id
          then Inr (Some (JObj (dict_set d ''archived'' (JBool (action = ''archive''))) # ss))
          else (case set_archived action company_id ss of
                  Inl e \<Rightarrow> Inl e
                | Inr None \<Rightarrow> Inr None
                | Inr (Some ss') \<Rightarrow> Inr (Some (s # ss')))
      | _ \<Rightarrow> Inl AttributeError)"

definition not_found_message :: "string \<Rightarrow> string" where
  "not_found_message company_id =
     ''Company id '' @ [CHR 0x27] @ company_id @ [CHR 0x27] @ '' not found in assets/sites.json''"

text \<open>
  \<open>main\<close> of archive\_company.py. \<open>issue_title\<close> and \<open>issue_body\<close> are the environment
  variables \<open>ISSUE_TITLE\<close> and \<open>ISSUE_BODY\<close>, \<open>today\<close> is
  \<open>datetime.utcnow().strftime("%Y-%m-%d")\<close>. The result is the exit status or the
  exception raised, and the repository as the run leaves it.
\<close>

definition archive_company_main ::
    "string \<Rightarrow> string \<Rightarrow> string \<Rightarrow> world \<Rightarrow> (error + int) \<times> world" where
  "archive_company_main issue_title issue_body today w =
     (case parse_issue issue_title issue_body of
        Inl e \<Rightarrow> (Inl e, w)
      | Inr (action, company_id) \<Rightarrow>
          (case sites_file w of
             Missing \<Rightarrow>
               (Inl (FileNotFoundError
                  ''assets/sites.json not found. Run generate_sites.py at least once.''), w)
           | Corrupt \<Rightarrow> (Inl JSONDecodeError, w)
           | Doc data \<Rightarrow>
               (case data of
                  JObj d \<Rightarrow>
                    (case dict_get_default d ''sites'' (JArr []) of
                       JArr sites \<Rightarrow>
                         (case set_archived action company_id sites of
                            Inl e \<Rightarrow> (Inl e, w)
                          | Inr None \<Rightarrow> (Inl (ValueError (not_found_message company_id)), w)
                          | Inr (Some sites') \<Rightarrow>
                              (let data' = JObj (dict_set (dict_set d ''updated'' (JStr today))
                                                   ''sites'' (JArr sites'))
                               in (Inr 0, write_sites data' w)))
                     | _ \<Rightarrow>
                         (Inl (ValueError
                            ''assets/sites.json has invalid format (sites is not a list).''), w))
                | _ \<Rightarrow> (Inl AttributeError, w))))"

section \<open>generate\_sites.py\<close>

definition S3_BASE :: string where
  "S3_BASE = ''https://sfdcdemoimages.s3.eu-west-1.amazonaws.com''"

text \<open>\<open>f"{S3_BASE}/{slug}/logo.png"\<close>, the address each script gives the logo.\<close>

definition logo_url :: "string \<Rightarrow> string" where
  "logo_url slug = S3_BASE @ ''/'' @ slug @ ''/logo.png''"

definition EXCLUDE :: "string list" where
  "EXCLUDE = [''.github'', ''assets'', ''scripts'']"

text \<open>
  \<^verbatim>\<open>
  def detect_company_dirs():
      dirs = []
      for p in ROOT.iterdir():
          if not p.is_dir():
              continue
          if p.name in EXCLUDE:
              continue
          if (p / "index.html").exists():
              dirs.append(p.name)
      return sorted(dirs)
  \<close>
\<close>

fun is_company_dir :: "string \<times> node \<Rightarrow> bool" where
  "is_company_dir (n, File) = False"
| "is_company_dir (n, Dir page) = (n \<notin> set EXCLUDE \<and> page \<noteq> None)"

definition detect_company_dirs :: "world \<Rightarrow> string list" where
  "detect_company_dirs w = sort (map fst (filter is_company_dir (entries w)))"

text \<open>
  \<^verbatim>\<open>
  def load_existing():
      if not SITES_FILE.exists():
          return {}
      try:
          data = json.loads(SITES_FILE.read_text(encoding="utf-8"))
          out = {}
          for s in data.get("sites", []):
              _id = s.get("id")
              if _id:
                  out[_id] = s
          return out
      except Exception:
          return {}
  \<close>
  \<open>out\<close> is a map from the ids to the entries. A list or a \<open>dict\<close> is not hashable
  and cannot be a key (\<open>TypeError\<close>). The callers look up strings only, so the keys that
  Python takes for equal (\<open>1\<close>, \<open>1.0\<close> and \<open>True\<close>) are kept apart here.
\<close>

fun hashable :: "json \<Rightarrow> bool" where
  "hashable (JArr xs) = False"
| "hashable (JObj d) = False"
| "hashable v = True"

fun collect_existing :: "json list \<Rightarrow> (json \<rightharpoonup> dict) \<Rightarrow> error + (json \<rightharpoonup> dict)" where
  "collect_existing [] out = Inr out"
| "collect_existing (s # ss) out =
     (case s of
        JObj d \<Rightarrow>
          (let i = dict_get d ''id''
           in if truthy i
              then (if hashable i then collect_existing ss (out(i \<mapsto> d)) else Inl TypeError)
              else collect_existing ss out)
      | _ \<Rightarrow> Inl AttributeError)"

definition load_existing :: "world \<Rightarrow> (json \<rightharpoonup> dict)" where
  "load_existing w =
     (case sites_file w of
        Missing \<Rightarrow> Map.empty
      | Corrupt \<Rightarrow> Map.empty
      | Doc data \<Rightarrow>
          (case data of
             JObj d \<Rightarrow>
               (case py_iter (dict_get_default d ''sites'' (JArr [])) of
                  Inl e \<Rightarrow> Map.empty
                | Inr ss \<Rightarrow>
                    (case collect_existing ss Map.empty of
                       Inl e \<Rightarrow> Map.empty
                     | Inr out \<Rightarrow> out))
           | _ \<Rightarrow> Map.empty))"

text \<open>\<open>s.title()\<close>: in every run of letters the first is upper case and the others are
  lower case. The flag says whether the previous character was a letter.\<close>

fun title_from :: "bool \<Rightarrow> string \<Rightarrow> string" where
  "title_from prev [] = []"
| "title_from prev (c # cs) =
     (if is_lower c \<or> is_upper c
      then (if prev then lower_char c else upper_char c) # title_from True cs
      else c # title_from False cs)"

definition py_title :: "string \<Rightarrow> string" where
  "py_title s = title_from False s"

text \<open>\<open>d.replace("-", " ").title()\<close>.\<close>

definition default_name :: "string \<Rightarrow> string" where
  "default_name d = py_title (map (\<lambda>c. if is_hyphen c then CHR '' '' else c) d)"

text \<open>
  \<^verbatim>\<open>
      for d in dirs:
          old = existing.get(d, {})
          sites.append({
              "id": d,
              "name": old.get("name") or d.replace("-", " ").title(),
              "path": f"/{d}/",
              "description": old.get("description", ""),
              "tag": old.get("tag") or "Demo",
              "logoUrl": old.get("logoUrl") or f"{S3_BASE}/{d}/logo.png",
              "archived": bool(old.get("archived", False)),
          })
  \<close>
\<close>

definition site_entry :: "(json \<rightharpoonup> dict) \<Rightarrow> string \<Rightarrow> dict" where
  "site_entry existing d =
     (let old = (case existing (JStr d) of None \<Rightarrow> [] | Some s \<Rightarrow> s)
      in [(''id'', JStr d),
          (''name'', py_or (dict_get old ''name'') (JStr (default_name d))),
          (''path'', JStr (''/'' @ d @ ''/'')),
          (''description'', dict_get_default old ''description'' (JStr [])),
          (''tag'', py_or (dict_get old ''tag'') (JStr ''Demo'')),
          (''logoUrl'', py_or (dict_get old ''logoUrl'') (JStr (logo_url d))),
          (''archived'', JBool (truthy (dict_get_default old ''archived'' (JBool False))))])"

text \<open>
  \<open>main\<close> of generate\_sites.py; \<open>today\<close> is
  \<open>datetime.utcnow().strftime("%Y-%m-%d")\<close>.
  \<^verbatim>\<open>
  def main():
      (ROOT / "assets").mkdir(parents=True, exist_ok=True)
      today = datetime.utcnow().strftime("%Y-%m-%d")
      dirs = detect_company_dirs()
      existing = load_existing()
      sites = []
      for d in dirs: ...
      out = {"updated": today, "sites": sites}
      SITES_FILE.write_text(json.dumps(out, indent=2, ensure_ascii=False) + "\n", encoding="utf-8")
  \<close>
\<close>

definition generate_sites_main :: "string \<Rightarrow> world \<Rightarrow> (error + unit) \<times> world" where
  "generate_sites_main today w =
     (case mkdir_assets w of
        Inl e \<Rightarrow> (Inl e, w)
      | Inr w1 \<Rightarrow>
          (let dirs = detect_company_dirs w1;
               existing = load_existing w1;
               sites = map (\<lambda>d. JObj (site_entry existing d)) dirs;
               out = JObj [(''updated'', JStr today), (''sites'', JArr sites)]
           in (Inr (), write_sites out w1)))"

section \<open>create\_company.py\<close>

record CompanyRequest =
  name :: string
  website :: string
  tone :: string

subsection \<open>parse\_issue\_body\<close>

text \<open>
  \<^verbatim>\<open>
      def find(field: str) -> str:
          m = re.search(rf"\*\*{re.escape(field)}:\*\*\s*(.+)", body, flags=re.IGNORECASE)
          return (m.group(1).strip() if m else "")
  \<close>
  After the label, \<open>\s*\<close> first takes all the white space; where \<open>(.+)\<close> then finds
  no character (\<open>.\<close> does not match a newline), \<open>\s*\<close> gives the white space back
  one character at a time. \<open>dot_plus_after r k\<close> tries \<open>(.+)\<close> after \<open>k\<close>
  characters of white space, then after fewer.
\<close>

definition is_newline :: "char \<Rightarrow> bool" where
  "is_newline c = (c = CHR 0x0A)"

fun dot_plus_after :: "string \<Rightarrow> nat \<Rightarrow> string option" where
  "dot_plus_after r 0 =
     (let g = takeWhile (\<lambda>c. \<not> is_newline c) r in if g = [] then None else Some g)"
| "dot_plus_after r (Suc k) =
     (let g = takeWhile (\<lambda>c. \<not> is_newline c) (drop (Suc k) r)
      in if g = [] then dot_plus_after r k else Some g)"

definition field_at :: "string \<Rightarrow> string \<Rightarrow> string option" where
  "field_at field s =
     (case match_ci (''**'' @ field @ '':**'') s of
        None \<Rightarrow> None
      | Some r \<Rightarrow> dot_plus_after r (length (takeWhile is_space r)))"

definition find_field :: "string \<Rightarrow> string \<Rightarrow> string" where
  "find_field body field =
     (case re_search (field_at field) body of Some g \<Rightarrow> strip g | None \<Rightarrow> [])"

text \<open>
  \<^verbatim>\<open>
      name = find("Company name")
      website = find("Website")
      tone = find("Tone") or "Professional"
      if not name:
          raise ValueError("Could not parse **Company name:** from issue body")
      if website == "-":
          website = ""
      return CompanyRequest(name=name, website=website, tone=tone)
  \<close>
\<close>

definition parse_issue_body :: "string \<Rightarrow> error + CompanyRequest" where
  "parse_issue_body body =
     (let n = find_field body ''Company name'';
          site = find_field body ''Website'';
          t = (if find_field body ''Tone'' = [] then ''Professional'' else find_field body ''Tone'')
      in if n = []
         then Inl (ValueError ''Could not parse **Company name:** from issue body'')
         else Inr \<lparr>name = n, website = (if site = ''-'' then [] else site), tone = t\<rparr>)"

subsection \<open>fetch\_site\_text\<close>

text \<open>
  What \<open>requests.get\<close> and \<open>BeautifulSoup\<close> give for a URL is an input of the model:
  the text of the \<open>title\<close> element when there is one, the \<open>content\<close> attribute of
  the description and of the og:image \<open>meta\<close> elements when there is one, and the text
  that \<open>main.get_text("\n", strip=True)\<close> returns. A failed request or a status that
  \<open>raise_for_status\<close> refuses is an error.
\<close>

record page =
  title_text :: "string option"
  description_content :: "string option"
  og_image_content :: "string option"
  main_text :: string

text \<open>\<open>re.match(r"^https?://", url, flags=re.I)\<close>, and the scheme added when it does
  not match.\<close>

definition has_scheme :: "string \<Rightarrow> bool" where
  "has_scheme url = (match_ci ''http://'' url \<noteq> None \<or> match_ci ''https://'' url \<noteq> None)"

definition with_scheme :: "string \<Rightarrow> string" where
  "with_scheme url = (if has_scheme url then url else ''https://'' @ url)"

text \<open>\<open>re.sub(r"[ \t]+", " ", text)\<close>.\<close>

definition is_blank :: "char \<Rightarrow> bool" where
  "is_blank c = (c = CHR '' '' \<or> c = CHR 0x09)"

function squeeze_blanks :: "string \<Rightarrow> string" where
  "squeeze_blanks [] = []"
| "squeeze_blanks (c # cs) =
     (if is_blank c then CHR '' '' # squeeze_blanks (dropWhile is_blank cs)
      else c # squeeze_blanks cs)"
  by pat_completeness auto
termination
  by (relation "measure length") (auto simp: less_Suc_eq_le length_dropWhile_le)

text \<open>\<open>re.sub(r"\n{3,}", "\n\n", text)\<close>: a run of three or more newlines becomes two.\<close>

function squeeze_newlines :: "string \<Rightarrow> string" where
  "squeeze_newlines [] = []"
| "squeeze_newlines (c # cs) =
     (if is_newline c
      then (if 2 \<le> length (takeWhile is_newline cs)
            then [c, c] @ squeeze_newlines (dropWhile is_newline cs)
            else c # takeWhile is_newline cs @ squeeze_newlines (dropWhile is_newline cs))
      else c # squeeze_newlines cs)"
  by pat_completeness auto
termination
  by (relation "measure length") (auto simp: less_Suc_eq_le length_dropWhile_le)

text \<open>
  \<^verbatim>\<open>
      text = re.sub(r"[ \t]+", " ", text)
      text = re.sub(r"\n{3,}", "\n\n", text).strip()
      if len(text) > max_chars:
          text = text[:max_chars] + "..."      (the one-character ellipsis)
  \<close>
\<close>

definition tidy :: "string \<Rightarrow> string" where
  "tidy t = strip (squeeze_newlines (squeeze_blanks t))"

definition clamp_text :: "nat \<Rightarrow> string \<Rightarrow> string" where
  "clamp_text max_chars t = (if length t > max_chars then take max_chars t @ [ellipsis] else t)"

text \<open>
  The value returned is a Python tuple, here the list of its components: the function
  returns three components for an empty URL and four otherwise.
  \<^verbatim>\<open>
  def fetch_site_text(url: str, max_chars: int = 12000) -> Tuple[str, str, str, str]:
      if not url:
          return ("", "", "")
      if not re.match(r"^https?://", url, flags=re.I):
          url = "https://" + url
      r = requests.get(url, headers=headers, timeout=20, allow_redirects=True)
      r.raise_for_status()
      soup = BeautifulSoup(r.text, "html.parser")
      title = (soup.title.get_text(" ", strip=True) if soup.title else "").strip()
      meta_desc = ""
      md = soup.find("meta", attrs={"name": re.compile(r"^description$", re.I)})
      if md and md.get("content"):
          meta_desc = str(md.get("content")).strip()
      og_image = ""
      og = soup.find("meta", attrs={"property": re.compile(r"^og:image$", re.I)})
      if og and og.get("content"):
          og_image = str(og.get("content")).strip()
      ...
      return (title, meta_desc, text, og_image)
  \<close>
\<close>

definition fetch_site_text ::
    "(string \<Rightarrow> error + page) \<Rightarrow> string \<Rightarrow> nat \<Rightarrow> error + string list" where
  "fetch_site_text http_get url max_chars =
     (if url = [] then Inr [[], [], []]
      else
        (case http_get (with_scheme url) of
           Inl e \<Rightarrow> Inl e
         | Inr p \<Rightarrow>
             (let title = strip (case title_text p of None \<Rightarrow> [] | Some t \<Rightarrow> t);
                  meta_desc = (case description_content p of None \<Rightarrow> [] | Some c \<Rightarrow> strip c);
                  og_image = (case og_image_content p of None \<Rightarrow> [] | Some c \<Rightarrow> strip c);
                  text = clamp_text max_chars (tidy (main_text p))
              in Inr [title, meta_desc, text, og_image])))"

subsection \<open>openai\_summary\<close>

text \<open>
  \<^verbatim>\<open>
      def fallback() -> str:
          if meta_desc and len(meta_desc.strip()) >= 40:
              return meta_desc.strip()
          if title:
              return f"{company.name} - demo environment based on publicly available information."
          return "Demo environment for this company."
  \<close>
  (the dash of the second sentence is the em dash).
\<close>

definition fallback :: "CompanyRequest \<Rightarrow> string \<Rightarrow> string \<Rightarrow> string" where
  "fallback company title meta_desc =
     (if meta_desc \<noteq> [] \<and> length (strip meta_desc) \<ge> 40 then strip meta_desc
      else if title \<noteq> []
           then name company @ '' '' @ [em_dash] @
                '' demo environment based on publicly available information.''
           else ''Demo environment for this company.'')"

text \<open>
  The service is an input of the model: \<open>http_post n\<close> is what the \<open>n\<close>-th call of
  \<open>requests.post\<close> gives, either a \<open>requests.RequestException\<close> or a response with
  its status code, its \<open>retry-after\<close> header and its body. \<open>resp.json()\<close> raises
  the \<open>JSONDecodeError\<close> of \<open>requests\<close> for a body that is not JSON, which is a
  \<open>RequestException\<close>. The request sent (the prompt, the model name) has no part in
  the control flow and is left out.
\<close>

datatype body = NotJson | Json json

record response =
  status_code :: int
  retry_after :: "string option"
  payload :: body

datatype reply = RequestException | Response response

text \<open>What the function does to the outside, in order: the calls of \<open>requests.post\<close>
  and of \<open>time.sleep\<close>.\<close>

datatype call = Post nat | Sleep real

text \<open>\<open>s.split()\<close> and \<open>" ".join(xs)\<close>.\<close>

fun split_from :: "string \<Rightarrow> string \<Rightarrow> string list" where
  "split_from w [] = (if w = [] then [] else [w])"
| "split_from w (c # cs) =
     (if is_space c then (if w = [] then split_from [] cs else w # split_from [] cs)
      else split_from (w @ [c]) cs)"

definition split_ws :: "string \<Rightarrow> string list" where
  "split_ws s = split_from [] s"

fun join_space :: "string list \<Rightarrow> string" where
  "join_space [] = []"
| "join_space [x] = x"
| "join_space (x # y # ys) = x @ '' '' @ join_space (y # ys)"

text \<open>
  \<^verbatim>\<open>
                      for c in item.get("content", []):
                          if c.get("type") in ("output_text", "text"):
                              t = c.get("text") or c.get("value") or ""
                              if t:
                                  parts.append(t)
  \<close>
\<close>

fun content_parts :: "json list \<Rightarrow> error + json list" where
  "content_parts [] = Inr []"
| "content_parts (c # cs) =
     (case c of
        JObj cd \<Rightarrow>
          (let t = py_or (py_or (dict_get cd ''text'') (dict_get cd ''value'')) (JStr []);
               here = (if (dict_get cd ''type'' = JStr ''output_text'' \<or> dict_get cd ''type'' = JStr ''text'')
                          \<and> truthy t then [t] else [])
           in case content_parts cs of Inl e \<Rightarrow> Inl e | Inr ps \<Rightarrow> Inr (here @ ps))
      | _ \<Rightarrow> Inl AttributeError)"

text \<open>
  \<^verbatim>\<open>
                  for item in data.get("output", []):
                      if item.get("type") != "message":
                          continue
                      for c in item.get("content", []): ...
  \<close>
\<close>

fun output_parts :: "json list \<Rightarrow> error + json list" where
  "output_parts [] = Inr []"
| "output_parts (item # items) =
     (case item of
        JObj d \<Rightarrow>
          if dict_get d ''type'' \<noteq> JStr ''message'' then output_parts items
          else (case py_iter (dict_get_default d ''content'' (JArr [])) of
                  Inl e \<Rightarrow> Inl e
                | Inr cs \<Rightarrow>
                    (case content_parts cs of
                       Inl e \<Rightarrow> Inl e
                     | Inr ps \<Rightarrow>
                         (case output_parts items of
                            Inl e \<Rightarrow> Inl e
                          | Inr qs \<Rightarrow> Inr (ps @ qs))))
      | _ \<Rightarrow> Inl AttributeError)"

text \<open>\<open>" ".join(parts)\<close> raises \<open>TypeError\<close> when an element is not a string.\<close>

fun strings_of :: "json list \<Rightarrow> error + string list" where
  "strings_of [] = Inr []"
| "strings_of (JStr s # ps) = (case strings_of ps of Inl e \<Rightarrow> Inl e | Inr ss \<Rightarrow> Inr (s # ss))"
| "strings_of (p # ps) = Inl TypeError"

text \<open>
  The success branch, from \<open>data = resp.json()\<close> to
  \<open>summary = " ".join(" ".join(parts).split()).strip()\<close>.
\<close>

definition summary_of :: "json \<Rightarrow> error + string" where
  "summary_of data =
     (case data of
        JObj d \<Rightarrow>
          (case py_iter (dict_get_default d ''output'' (JArr [])) of
             Inl e \<Rightarrow> Inl e
           | Inr items \<Rightarrow>
               (case output_parts items of
                  Inl e \<Rightarrow> Inl e
                | Inr parts \<Rightarrow>
                    (case strings_of parts of
                       Inl e \<Rightarrow> Inl e
                     | Inr ss \<Rightarrow> Inr (strip (join_space (split_ws (join_space ss)))))))
      | _ \<Rightarrow> Inl AttributeError)"

definition max_attempts :: nat where
  "max_attempts = 5"

definition base_sleep :: real where
  "base_sleep = 1.5"

definition retryable :: "int \<Rightarrow> bool" where
  "retryable st = (st \<in> set [429, 500, 502, 503, 504])"

text \<open>
  One pass of the loop body. \<open>uniform n\<close> is the value of \<open>random.uniform(0, 0.75)\<close>
  in attempt \<open>n\<close>, \<open>float_of\<close> is Python's \<open>float\<close> on a string (\<open>None\<close> where it
  raises). The pass ends the function with a value or an exception, or asks for a sleep
  and another attempt.
\<close>

datatype outcome = Return string | Raise error | Retry real

definition backoff :: "(nat \<Rightarrow> real) \<Rightarrow> nat \<Rightarrow> real" where
  "backoff uniform attempt = base_sleep * 2 ^ (attempt - 1) + uniform attempt"

definition attempt_once ::
    "(nat \<Rightarrow> real) \<Rightarrow> (string \<Rightarrow> real option) \<Rightarrow> string \<Rightarrow> nat \<Rightarrow> reply \<Rightarrow> outcome" where
  "attempt_once uniform float_of fb attempt r =
     (case r of
        RequestException \<Rightarrow>
          if attempt < max_attempts then Retry (backoff uniform attempt) else Return fb
      | Response resp \<Rightarrow>
          if 200 \<le> status_code resp \<and> status_code resp < 300
          then (case payload resp of
                  NotJson \<Rightarrow>
                    if attempt < max_attempts then Retry (backoff uniform attempt) else Return fb
                | Json data \<Rightarrow>
                    (case summary_of data of
                       Inl e \<Rightarrow> Raise e
                     | Inr summary \<Rightarrow> Return (if summary = [] then fb else summary)))
          else if retryable (status_code resp)
          then (let sleep_s = (case retry_after resp of
                                 None \<Rightarrow> None
                               | Some h \<Rightarrow> if h = [] then None else float_of h)
                in if attempt < max_attempts
                   then Retry (case sleep_s of Some d \<Rightarrow> d | None \<Rightarrow> backoff uniform attempt)
                   else Return fb)
          else Return fb)"

text \<open>
  \<open>for attempt in range(1, max_attempts + 1)\<close>, with the \<open>return fallback()\<close> after
  the loop. \<open>time.sleep\<close> raises \<open>ValueError\<close> for a negative argument.
\<close>

function attempts ::
    "(nat \<Rightarrow> reply) \<Rightarrow> (nat \<Rightarrow> real) \<Rightarrow> (string \<Rightarrow> real option) \<Rightarrow> string \<Rightarrow>
     nat \<Rightarrow> call list \<Rightarrow> (error + string) \<times> call list" where
  "attempts http_post uniform float_of fb attempt done =
     (if max_attempts < attempt then (Inr fb, done)
      else
        (case attempt_once uniform float_of fb attempt (http_post attempt) of
           Return v \<Rightarrow> (Inr v, done @ [Post attempt])
         | Raise e \<Rightarrow> (Inl e, done @ [Post attempt])
         | Retry d \<Rightarrow>
             if d < 0
             then (Inl (ValueError ''sleep length must be non-negative''), done @ [Post attempt])
             else attempts http_post uniform float_of fb (Suc attempt)
                    (done @ [Post attempt, Sleep d])))"
  by pat_completeness auto
termination
  by (relation "measure (\<lambda>(p, u, f, fb, attempt, done). Suc max_attempts - attempt)") auto

text \<open>
  \<^verbatim>\<open>
      api_key = os.getenv("OPENAI_API_KEY", "").strip()
      if not api_key:
          return fallback()
      ...
      for attempt in range(1, max_attempts + 1): ...
      return fallback()
  \<close>
\<close>

definition openai_summary ::
    "string \<Rightarrow> (nat \<Rightarrow> reply) \<Rightarrow> (nat \<Rightarrow> real) \<Rightarrow> (string \<Rightarrow> real option) \<Rightarrow>
     CompanyRequest \<Rightarrow> string \<Rightarrow> string \<Rightarrow> string \<Rightarrow> (error + string) \<times> call list" where
  "openai_summary OPENAI_API_KEY http_post uniform float_of company title meta_desc page_text =
     (if strip OPENAI_API_KEY = [] then (Inr (fallback company title meta_desc), [])
      else attempts http_post uniform float_of (fallback company title meta_desc) 1 [])"

subsection \<open>maybe\_take\_screenshot\<close>

text \<open>
  The browser is an input of the model: for a URL, Playwright is not installed, the
  response has status 401 or 403, the page shows a deny marker, the image is saved, or an
  exception is raised (with \<open>True\<close> when the image file was written before it).
  \<^verbatim>\<open>
      if not url:
          return None
      if not re.match(r"^https?://", url, flags=re.I):
          url = "https://" + url
      SCREENSHOT_DIR.mkdir(parents=True, exist_ok=True)
      out_path = SCREENSHOT_DIR / f"{company_slug}.png"
      try:
          from playwright.sync_api import sync_playwright
      except Exception:
          return None
      try:
          ... status in (401, 403): return None
          ... deny marker: if out_path.exists(): out_path.unlink(missing_ok=True); return None
          page.screenshot(path=str(out_path), full_page=True)
          return f"/assets/screenshots/{company_slug}.png"
      except Exception:
          if out_path.exists():
              out_path.unlink(missing_ok=True)
          return None
  \<close>
\<close>

datatype browse_result = NotInstalled | Forbidden | DenyPage | Saved | Crashed bool

definition mkdir_screenshots :: "world \<Rightarrow> error + world" where
  "mkdir_screenshots w =
     (case mkdir_assets w of
        Inl e \<Rightarrow> Inl e
      | Inr w1 \<Rightarrow>
          (case shots w1 of
             Some _ \<Rightarrow> Inr w1
           | None \<Rightarrow> Inr (w1\<lparr>shots := Some [],
                               written := written w1 @ [Mkdir ''assets/screenshots'']\<rparr>)))"

definition shot_path :: "string \<Rightarrow> string" where
  "shot_path company_slug = ''/assets/screenshots/'' @ company_slug @ ''.png''"

definition save_shot :: "string \<Rightarrow> world \<Rightarrow> world" where
  "save_shot company_slug w =
     w\<lparr>shots := Some (company_slug # removeAll company_slug (case shots w of None \<Rightarrow> [] | Some xs \<Rightarrow> xs)),
       written := written w @ [SaveImage (shot_path company_slug)]\<rparr>"

definition unlink_shot :: "string \<Rightarrow> world \<Rightarrow> world" where
  "unlink_shot company_slug w =
     (case shots w of
        None \<Rightarrow> w
      | Some xs \<Rightarrow>
          if company_slug \<in> set xs
          then w\<lparr>shots := Some (removeAll company_slug xs),
                 written := written w @ [Unlink (shot_path company_slug)]\<rparr>
          else w)"

definition maybe_take_screenshot ::
    "(string \<Rightarrow> browse_result) \<Rightarrow> string \<Rightarrow> string \<Rightarrow> world \<Rightarrow> (error + string option) \<times> world" where
  "maybe_take_screenshot browse company_slug url w =
     (if url = [] then (Inr None, w)
      else
        (case mkdir_screenshots w of
           Inl e \<Rightarrow> (Inl e, w)
         | Inr w1 \<Rightarrow>
             (case browse (with_scheme url) of
                NotInstalled \<Rightarrow> (Inr None, w1)
              | Forbidden \<Rightarrow> (Inr None, w1)
              | DenyPage \<Rightarrow> (Inr None, unlink_shot company_slug w1)
              | Saved \<Rightarrow> (Inr (Some (shot_path company_slug)), save_shot company_slug w1)
              | Crashed wrote \<Rightarrow>
                  (Inr None, unlink_shot company_slug (if wrote then save_shot company_slug w1 else w1)))))"

subsection \<open>render\_from\_template\<close>

text \<open>The first occurrence of \<open>m\<close> in \<open>s\<close>: the text before it and the text after
  it.\<close>

fun split_at_first :: "string \<Rightarrow> string \<Rightarrow> (string \<times> string) option" where
  "split_at_first m [] = (if m = [] then Some ([], []) else None)"
| "split_at_first m (c # cs) =
     (if startswith (c # cs) m then Some ([], drop (length m) (c # cs))
      else (case split_at_first m cs of
              None \<Rightarrow> None
            | Some (before, after) \<Rightarrow> Some (c # before, after)))"

text \<open>
  \<^verbatim>\<open>
      def strip_block(block_name: str, keep: bool) -> None:
          nonlocal html
          pattern = re.compile(rf"\{{\#IF_{block_name}\}}(.*?)\{{\/IF_{block_name}\}}", re.DOTALL)
          def repl(m):
              return m.group(1) if keep else ""
          html = pattern.sub(repl, html)
  \<close>
  A block runs from a start marker to the first end marker after it.
\<close>

function strip_block :: "string \<Rightarrow> bool \<Rightarrow> string \<Rightarrow> string" where
  "strip_block block_name keep [] = []"
| "strip_block block_name keep (c # cs) =
     (if startswith (c # cs) (''{#IF_'' @ block_name @ ''}'')
      then (case split_at_first (''{/IF_'' @ block_name @ ''}'')
                   (drop (length (''{#IF_'' @ block_name @ ''}'')) (c # cs)) of
              None \<Rightarrow> c # strip_block block_name keep cs
            | Some (inner, after) \<Rightarrow> (if keep then inner else []) @ strip_block block_name keep after)
      else c # strip_block block_name keep cs)"
  by pat_completeness auto
termination
proof (relation "measure (\<lambda>(b, k, s). length s)", goal_cases)
  case 1
  show ?case by simp
next
  case (2 block_name keep c cs)
  show ?case by simp
next
  case (3 block_name keep c cs x2 inner after)
  have shorter: "split_at_first m s = Some (b, a) \<Longrightarrow> length a \<le> length s" for m s b a
  proof (induction s arbitrary: b)
    case Nil
    then show ?case by (simp split: if_splits)
  next
    case (Cons y ys)
    show ?case
    proof (cases "startswith (y # ys) m")
      case True
      with Cons.prems show ?thesis by auto
    next
      case False
      with Cons.prems obtain b' where "split_at_first m ys = Some (b', a)"
        by (auto split: option.splits)
      from Cons.IH [OF this] show ?thesis by simp
    qed
  qed
  from 3 have "split_at_first (''{/IF_'' @ block_name @ ''}'')
      (drop (length (''{#IF_'' @ block_name @ ''}'')) (c # cs)) = Some (inner, after)"
    by simp
  from shorter [OF this] show ?case by simp
next
  case (4 block_name keep c cs)
  show ?case by simp
qed

text \<open>\<open>html.replace(k, v)\<close> for a token \<open>k\<close> that is not empty (every token of the
  source is a literal such as \<open>{{COMPANY_NAME}}\<close>).\<close>

function replace_all :: "string \<Rightarrow> string \<Rightarrow> string \<Rightarrow> string" where
  "replace_all k v [] = []"
| "replace_all k v (c # cs) =
     (if k \<noteq> [] \<and> startswith (c # cs) k then v @ replace_all k v (drop (length k) (c # cs))
      else c # replace_all k v cs)"
  by pat_completeness auto
termination
  by (relation "measure (\<lambda>(k, v, s). length s)") (auto simp: Suc_le_eq)

text \<open>
  \<^verbatim>\<open>
      strip_block("WEBSITE", has_website)
      strip_block("SCREENSHOT", has_screenshot)
      ...
      for k, v in replacements.items():
          html = html.replace(k, v)
      return html
  \<close>
\<close>

definition render_from_template ::
    "string \<Rightarrow> CompanyRequest \<Rightarrow> string \<Rightarrow> string \<Rightarrow> string option \<Rightarrow> string" where
  "render_from_template template_html company slug summary screenshot_path =
     (let has_website = (website company \<noteq> []);
          has_screenshot = (case screenshot_path of None \<Rightarrow> False | Some sp \<Rightarrow> sp \<noteq> []);
          html = strip_block ''SCREENSHOT'' has_screenshot
                   (strip_block ''WEBSITE'' has_website template_html);
          replacements =
            [(''{{COMPANY_NAME}}'', name company),
             (''{{COMPANY_WEBSITE}}'', website company),
             (''{{COMPANY_SUMMARY}}'', summary),
             (''{{COMPANY_TONE}}'', tone company),
             (''{{LOGO_URL}}'', logo_url slug),
             (''{{S3_BUCKET_HINT}}'', ''s3://sfdcdemoimages/'' @ slug @ ''/''),
             (''{{S3_LOGO_HINT}}'', slug @ ''/logo.png''),
             (''{{SCREENSHOT_PATH}}'', (case screenshot_path of None \<Rightarrow> [] | Some sp \<Rightarrow> sp))]
      in foldl (\<lambda>h kv. replace_all (fst kv) (snd kv) h) html replacements)"

subsection \<open>upsert\_sites\_json\<close>

text \<open>
  \<^verbatim>\<open>
      existing = None
      for s in sites:
          if s.get("id") == company_slug:
              existing = s
              break
  \<close>
  The position of the entry found, \<open>None\<close> when there is none, or the
  \<open>AttributeError\<close> of \<open>s.get\<close> on an element that is not a \<open>dict\<close>.
\<close>

fun find_site :: "string \<Rightarrow> json list \<Rightarrow> error + nat option" where
  "find_site company_slug [] = Inr None"
| "find_site company_slug (s # ss) =
     (case s of
        JObj d \<Rightarrow>
          if dict_get d ''id'' = JStr company_slug then Inr (Some 0)
          else (case find_site company_slug ss of
                  Inl e \<Rightarrow> Inl e
                | Inr None \<Rightarrow> Inr None
                | Inr (Some i) \<Rightarrow> Inr (Some (Suc i)))
      | _ \<Rightarrow> Inl AttributeError)"

text \<open>
  \<^verbatim>\<open>
      existing["name"] = company_name
      existing["description"] = summary
      existing.setdefault("tag", "Demo")
      existing.setdefault("logoUrl", f"{S3_BASE}/{company_slug}/logo.png")
  \<close>
\<close>

definition fill_entry :: "string \<Rightarrow> string \<Rightarrow> string \<Rightarrow> dict \<Rightarrow> dict" where
  "fill_entry company_slug company_name summary existing =
     dict_setdefault
       (dict_setdefault
          (dict_set (dict_set existing ''name'' (JStr company_name)) ''description'' (JStr summary))
          ''tag'' (JStr ''Demo''))
       ''logoUrl'' (JStr (logo_url company_slug))"

definition fill_json :: "string \<Rightarrow> string \<Rightarrow> string \<Rightarrow> json \<Rightarrow> json" where
  "fill_json company_slug company_name summary s =
     (case s of JObj e \<Rightarrow> JObj (fill_entry company_slug company_name summary e) | _ \<Rightarrow> s)"

text \<open>
  \<open>existing\<close> is the \<open>dict\<close> that stands in the list, so the assignments change the
  list at the position found (or at the end, for the entry appended).
  \<^verbatim>\<open>
  def upsert_sites_json(company_slug: str, company_name: str, summary: str) -> None:
      ASSETS_DIR.mkdir(parents=True, exist_ok=True)
      today = datetime.utcnow().strftime("%Y-%m-%d")
      data = {"updated": today, "sites": []}
      if SITES_FILE.exists():
          try:
              data = json.loads(SITES_FILE.read_text(encoding="utf-8"))
          except Exception:
              pass
      sites = data.get("sites", [])
      if not isinstance(sites, list):
          sites = []
      ...
      if existing is None:
          existing = {"id": company_slug, "path": f"/{company_slug}/"}
          sites.append(existing)
      ...
      data["updated"] = today
      data["sites"] = sites
      SITES_FILE.write_text(json.dumps(data, indent=2, ensure_ascii=False) + "\n", encoding="utf-8")
  \<close>
\<close>

definition upsert_sites_json ::
    "string \<Rightarrow> string \<Rightarrow> string \<Rightarrow> string \<Rightarrow> world \<Rightarrow> (error + unit) \<times> world" where
  "upsert_sites_json company_slug company_name summary today w =
     (case mkdir_assets w of
        Inl e \<Rightarrow> (Inl e, w)
      | Inr w1 \<Rightarrow>
          (case (case sites_file w1 of
                   Doc v \<Rightarrow> v
                 | _ \<Rightarrow> JObj [(''updated'', JStr today), (''sites'', JArr [])]) of
             JObj d \<Rightarrow>
               (let sites = (case dict_get_default d ''sites'' (JArr []) of
                               JArr ss \<Rightarrow> ss | _ \<Rightarrow> [])
                in case find_site company_slug sites of
                     Inl e \<Rightarrow> (Inl e, w1)
                   | Inr found \<Rightarrow>
                       (let sites1 = (case found of
                                        Some i \<Rightarrow> sites
                                      | None \<Rightarrow>
                                          sites @ [JObj [(''id'', JStr company_slug),
                                                         (''path'', JStr (''/'' @ company_slug @ ''/''))]]);
                            i = (case found of Some i \<Rightarrow> i | None \<Rightarrow> length sites);
                            sites2 = sites1[i := fill_json company_slug company_name summary (sites1 ! i)];
                            data' = JObj (dict_set (dict_set d ''updated'' (JStr today))
                                            ''sites'' (JArr sites2))
                        in (Inr (), write_sites data' w1)))
           | _ \<Rightarrow> (Inl AttributeError, w1)))"

subsection \<open>main\<close>

text \<open>
  What the run reads from outside the repository: the environment variables, the date,
  the web site, the summary service, the random numbers and Python's \<open>float\<close>, and
  the browser.
\<close>

record env =
  ISSUE_BODY :: string
  OPENAI_API_KEY :: string
  utc_today :: string
  http_get :: "string \<Rightarrow> error + page"
  http_post :: "nat \<Rightarrow> reply"
  uniform :: "nat \<Rightarrow> real"
  float_of :: "string \<Rightarrow> real option"
  browse :: "string \<Rightarrow> browse_result"

definition TEMPLATE_DIR :: string where
  "TEMPLATE_DIR = ''company-template''"

text \<open>\<open>shutil.copytree(TEMPLATE_DIR, company_dir)\<close>, for a destination that does not
  exist.\<close>

definition copytree :: "string \<Rightarrow> string \<Rightarrow> world \<Rightarrow> error + world" where
  "copytree src dst w =
     (case map_of (entries w) src of
        None \<Rightarrow> Inl (FileNotFoundError src)
      | Some File \<Rightarrow> Inl NotADirectoryError
      | Some (Dir page) \<Rightarrow>
          Inr (w\<lparr>entries := entries w @ [(dst, Dir page)],
                 written := written w @ [CopyTree src dst]\<rparr>))"

text \<open>\<open>(company_dir / "index.html").write_text(out_html, encoding="utf-8")\<close>.\<close>

definition write_index :: "string \<Rightarrow> string \<Rightarrow> world \<Rightarrow> world" where
  "write_index dir html w =
     w\<lparr>entries := map (\<lambda>(n, nd). if n = dir then (n, Dir (Some html)) else (n, nd)) (entries w),
       written := written w @ [WriteText (dir @ ''/index.html'') html]\<rparr>"

text \<open>\<open>title, meta_desc, page_text, og_image = ...\<close>: unpacking a tuple that does not
  have four components raises \<open>ValueError\<close>.\<close>

fun unpack4 :: "string list \<Rightarrow> error + (string \<times> string \<times> string \<times> string)" where
  "unpack4 [a, b, c, d] = Inr (a, b, c, d)"
| "unpack4 xs =
     (if length xs < 4 then Inl (ValueError ''not enough values to unpack'')
      else Inl (ValueError ''too many values to unpack''))"

text \<open>
  \<^verbatim>\<open>
  def main() -> int:
      issue_body = os.getenv("ISSUE_BODY", "")
      if not issue_body.strip():
          print("ISSUE_BODY is empty; nothing to do.")
          return 0
      req = parse_issue_body(issue_body)
      slug = slugify(req.name)
      company_dir = ROOT / slug
      if company_dir.exists():
          print(f"Company folder already exists: {company_dir}")
          return 0
      if not TEMPLATE_DIR.exists():
          raise FileNotFoundError(f"Template folder not found: {TEMPLATE_DIR}")
      shutil.copytree(TEMPLATE_DIR, company_dir)
      title, meta_desc, page_text, og_image = fetch_site_text(req.website)
      summary = openai_summary(req, title, meta_desc, page_text)
      screenshot_path = maybe_take_screenshot(slug, req.website)
      if not screenshot_path and og_image:
          screenshot_path = og_image
      template_html = (TEMPLATE_DIR / "index.html").read_text(encoding="utf-8")
      out_html = render_from_template(template_html, req, slug, summary, screenshot_path)
      (company_dir / "index.html").write_text(out_html, encoding="utf-8")
      upsert_sites_json(slug, req.name, summary)
      ...
      return 0
  \<close>
  The steps after the copy, from the unpacked result of the fetch on:
\<close>

definition finish_company ::
    "env \<Rightarrow> CompanyRequest \<Rightarrow> string \<Rightarrow> string \<times> string \<times> string \<times> string \<Rightarrow> world \<Rightarrow>
     (error + int) \<times> world" where
  "finish_company E req slug fetched w =
     (case fetched of (title, meta_desc, page_text, og_image) \<Rightarrow>
        (case fst (openai_summary (OPENAI_API_KEY E) (http_post E) (uniform E) (float_of E)
                     req title meta_desc page_text) of
           Inl e \<Rightarrow> (Inl e, w)
         | Inr summary \<Rightarrow>
             (case maybe_take_screenshot (browse E) slug (website req) w of
                (Inl e, w2) \<Rightarrow> (Inl e, w2)
              | (Inr shot, w2) \<Rightarrow>
                  (let screenshot_path = (if shot = None \<and> og_image \<noteq> [] then Some og_image else shot)
                   in case map_of (entries w2) TEMPLATE_DIR of
                        Some (Dir (Some template_html)) \<Rightarrow>
                          (let out_html = render_from_template template_html req slug summary
                                            screenshot_path;
                               w3 = write_index slug out_html w2
                           in case upsert_sites_json slug (name req) summary (utc_today E) w3 of
                                (Inl e, w4) \<Rightarrow> (Inl e, w4)
                              | (Inr u, w4) \<Rightarrow> (Inr 0, w4))
                      | _ \<Rightarrow> (Inl (FileNotFoundError (TEMPLATE_DIR @ ''/index.html'')), w2)))))"

definition create_company_main :: "env \<Rightarrow> world \<Rightarrow> (error + int) \<times> world" where
  "create_company_main E w =
     (if strip (ISSUE_BODY E) = [] then (Inr 0, w)
      else
        (case parse_issue_body (ISSUE_BODY E) of
           Inl e \<Rightarrow> (Inl e, w)
         | Inr req \<Rightarrow>
             (let slug = slugify (name req)
              in if path_exists w slug then (Inr 0, w)
                 else if \<not> path_exists w TEMPLATE_DIR
                 then (Inl (FileNotFoundError ''Template folder not found''), w)
                 else
                   (case copytree TEMPLATE_DIR slug w of
                      Inl e \<Rightarrow> (Inl e, w)
                    | Inr w1 \<Rightarrow>
                        (case fetch_site_text (http_get E) (website req) 12000 of
                           Inl e \<Rightarrow> (Inl e, w1)
                         | Inr fetched \<Rightarrow>
                             (case unpack4 fetched of
                                Inl e \<Rightarrow> (Inl e, w1)
                              | Inr four \<Rightarrow> finish_company E req slug four w1))))))"

section \<open>The manifest as a list of entries, and example inputs\<close>

text \<open>
  The data model has the manifest hold a sequence of site entries under \<open>sites\<close>, each
  a \<open>dict\<close>. \<open>site_list\<close> gives the entries of a manifest of that shape (a manifest
  without the key counts as one with no entry, as the scripts read it).
\<close>

definition is_entry :: "json \<Rightarrow> bool" where
  "is_entry s = (case s of JObj d \<Rightarrow> True | _ \<Rightarrow> False)"

definition entry_id :: "json \<Rightarrow> json" where
  "entry_id s = (case s of JObj d \<Rightarrow> dict_get d ''id'' | _ \<Rightarrow> JNull)"

definition site_list :: "world \<Rightarrow> json list option" where
  "site_list w =
     (case sites_file w of
        Doc (JObj d) \<Rightarrow>
          (case dict_get_default d ''sites'' (JArr []) of
             JArr ss \<Rightarrow> if list_all is_entry ss then Some ss else None
           | _ \<Rightarrow> None)
      | _ \<Rightarrow> None)"

text \<open>The entries the scripts read from the manifest, whatever its shape: none when the
  file is missing or unreadable, or when \<open>sites\<close> is not a list.\<close>

definition manifest_entries :: "world \<Rightarrow> json list" where
  "manifest_entries w =
     (case sites_file w of
        Doc (JObj d) \<Rightarrow>
          (case dict_get_default d ''sites'' (JArr []) of JArr ss \<Rightarrow> ss | _ \<Rightarrow> [])
      | _ \<Rightarrow> [])"

text \<open>A small repository and environment on which the properties below are run.\<close>

definition example_world :: world where
  "example_world =
     \<lparr>entries = [(''company-template'', Dir (Some ''<h1>{{COMPANY_NAME}}</h1>'')),
                 (''assets'', Dir None),
                 (''globex'', Dir (Some ''<h1>Globex</h1>''))],
      sites_file = Doc (JObj [(''updated'', JStr ''2025-12-31''),
                              (''sites'', JArr [JObj [(''id'', JStr ''globex''),
                                                      (''name'', JStr ''Globex''),
                                                      (''tag'', JStr ''Gold'')]])]),
      shots = None,
      written = []\<rparr>"

definition example_page :: page where
  "example_page =
     \<lparr>title_text = Some ''Acme'', description_content = None, og_image_content = None,
      main_text = ''Welcome to Acme''\<rparr>"

definition example_get :: "string \<Rightarrow> error + page" where
  "example_get url = Inr example_page"

definition example_post :: "nat \<Rightarrow> reply" where
  "example_post n = RequestException"

definition example_uniform :: "nat \<Rightarrow> real" where
  "example_uniform n = 1 / 2"

definition example_float :: "string \<Rightarrow> real option" where
  "example_float h = (if h = ''7'' then Some 7 else if h = ''-1'' then Some (- 1) else None)"

definition example_browse :: "string \<Rightarrow> browse_result" where
  "example_browse url = NotInstalled"

definition example_env :: "string \<Rightarrow> env" where
  "example_env body =
     \<lparr>ISSUE_BODY = body, OPENAI_API_KEY = [], utc_today = ''2026-01-01'',
      http_get = example_get, http_post = example_post, uniform = example_uniform,
      float_of = example_float, browse = example_browse\<rparr>"

definition example_request :: CompanyRequest where
  "example_request = \<lparr>name = ''Acme'', website = [], tone = ''Professional''\<rparr>"

text \<open>Two pages whose text has 20000 characters: one without white space, one with a
  long run of blanks between two letters.\<close>

definition long_page :: page where
  "long_page = \<lparr>title_text = None, description_content = None, og_image_content = None,
                main_text = replicate 20000 (CHR ''a'')\<rparr>"

definition long_get :: "string \<Rightarrow> error + page" where
  "long_get url = Inr long_page"

definition gappy_page :: page where
  "gappy_page = \<lparr>title_text = None, description_content = None, og_image_content = None,
                 main_text = ''a'' @ replicate 19998 (CHR '' '') @ ''b''\<rparr>"

definition gappy_get :: "string \<Rightarrow> error + page" where
  "gappy_get url = Inr gappy_page"

text \<open>Replies of the summary service: a text part whose \<open>text\<close> is an object, an
  \<open>output\<close> that is \<open>null\<close>, and a rate limit with a negative \<open>retry-after\<close>.\<close>

definition nested_text_post :: "nat \<Rightarrow> reply" where
  "nested_text_post n =
     Response \<lparr>status_code = 200, retry_after = None,
               payload = Json (JObj [(''output'',
                 JArr [JObj [(''type'', JStr ''message''),
                             (''content'',
                              JArr [JObj [(''type'', JStr ''text''),
                                          (''text'', JObj [(''value'', JStr ''Acme makes anvils.'')])]])]])])\<rparr>"

definition null_output_post :: "nat \<Rightarrow> reply" where
  "null_output_post n =
     Response \<lparr>status_code = 200, retry_after = None, payload = Json (JObj [(''output'', JNull)])\<rparr>"

definition negative_hint_post :: "nat \<Rightarrow> reply" where
  "negative_hint_post n = Response \<lparr>status_code = 429, retry_after = Some ''-1'', payload = NotJson\<rparr>"

text \<open>The calls of \<open>requests.post\<close> among the calls made.\<close>

fun is_post :: "call \<Rightarrow> bool" where
  "is_post (Post n) = True"
| "is_post (Sleep d) = False"

section \<open>Properties\<close>

subsection \<open>Trimming\<close>

lemma trim_decomp:
  "dropWhile P s = trim P s @ rev (takeWhile P (rev (dropWhile P s)))"
proof -
  let ?t = "dropWhile P s"
  have "?t = rev (takeWhile P (rev ?t) @ dropWhile P (rev ?t))"
    by (simp only: takeWhile_dropWhile_id rev_rev_ident)
  then show ?thesis
    by (simp only: rev_append trim_def)
qed

lemma trim_last: "trim P s \<noteq> [] \<Longrightarrow> \<not> P (last (trim P s))"
proof -
  assume ne: "trim P s \<noteq> []"
  let ?u = "dropWhile P (rev (dropWhile P s))"
  have u: "?u \<noteq> []" using ne by (simp add: trim_def)
  then have "\<not> P (hd ?u)" by (rule hd_dropWhile)
  moreover have "last (trim P s) = hd ?u"
    using u by (simp add: trim_def last_rev)
  ultimately show ?thesis by simp
qed

lemma trim_hd: "trim P s \<noteq> [] \<Longrightarrow> \<not> P (hd (trim P s))"
proof -
  assume ne: "trim P s \<noteq> []"
  let ?t = "dropWhile P s"
  have "hd ?t = hd (trim P s @ rev (takeWhile P (rev ?t)))"
    by (rule arg_cong [OF trim_decomp])
  also have "\<dots> = hd (trim P s)"
    using ne by (rule hd_append2)
  finally have "hd ?t = hd (trim P s)" .
  moreover have "?t \<noteq> []"
  proof
    assume "?t = []"
    then have "trim P s = []" unfolding trim_def by (simp only: rev.simps dropWhile.simps)
    with ne show False ..
  qed
  ultimately show ?thesis using hd_dropWhile [of P s] by simp
qed

lemma trim_set: "set (trim P s) \<subseteq> set s"
  unfolding trim_def by (auto dest!: set_dropWhileD)

lemma dropWhile_hd_id: "\<not> P (hd s) \<Longrightarrow> dropWhile P s = s"
  by (cases s) simp_all

lemma trim_id: "\<not> P (hd s) \<Longrightarrow> \<not> P (last s) \<Longrightarrow> trim P s = s"
proof (cases "s = []")
  case True
  then show ?thesis by (simp add: trim_def)
next
  case False
  assume h: "\<not> P (hd s)" and l: "\<not> P (last s)"
  have "\<not> P (hd (rev s))" using l False by (simp add: hd_rev)
  then have "dropWhile P (rev s) = rev s" by (rule dropWhile_hd_id)
  moreover have "dropWhile P s = s" using h by (rule dropWhile_hd_id)
  ultimately show ?thesis by (simp add: trim_def)
qed

lemma trim_trim: "trim P (trim P s) = trim P s"
proof (cases "trim P s = []")
  case True
  have "trim P [] = []" by (simp add: trim_def)
  with True show ?thesis by (simp only:)
next
  case False
  from trim_hd [OF False] trim_last [OF False] show ?thesis by (rule trim_id)
qed

lemma strip_strip: "strip (strip s) = strip s"
  by (simp add: strip_def trim_trim)

subsection \<open>slugify\<close>

lemma sub_non_alnum_chars: "list_all is_slug_char (sub_non_alnum s)"
  by (induction s rule: sub_non_alnum.induct)
     (simp_all add: is_slug_char_def is_slug_alnum_def is_hyphen_def)

lemma trim_hyphens_chars: "list_all is_slug_char (trim_hyphens (sub_non_alnum s))"
  using sub_non_alnum_chars [of s] trim_set [of is_hyphen "sub_non_alnum s"]
  unfolding trim_hyphens_def list_all_iff by blast

lemma company_chars: "list_all is_slug_char ''company''"
  by (simp add: is_slug_char_def is_lower_def)

lemma company_ends: "\<not> is_hyphen (hd ''company'') \<and> \<not> is_hyphen (last ''company'')"
  by (simp add: is_hyphen_def)

lemma replace_amp_append: "replace_amp (a @ b) = replace_amp a @ replace_amp b"
  by (simp add: replace_amp_def)

lemma replace_amp_amp: "replace_amp ''&'' = ''and''"
  by (simp add: replace_amp_def)

lemma slugify_example: "slugify ''Acme & Co'' = ''acme-and-co''"
  by code_simp

lemma slugify_valid: "valid_slug (slugify s)"
proof -
  let ?t = "trim_hyphens (sub_non_alnum (replace_amp (lower (strip s))))"
  have eq: "slugify s = (if ?t = [] then ''company'' else ?t)"
    by (simp add: slugify_def Let_def)
  have 1: "slugify s \<noteq> []" unfolding eq by simp
  have 2: "list_all is_slug_char (slugify s)"
    unfolding eq using trim_hyphens_chars company_chars by simp
  have 3: "\<not> is_hyphen (hd (slugify s))"
    unfolding eq using trim_hd [of is_hyphen] company_ends by (simp add: trim_hyphens_def)
  have 4: "\<not> is_hyphen (last (slugify s))"
    unfolding eq using trim_last [of is_hyphen] company_ends by (simp add: trim_hyphens_def)
  from 1 2 3 4 show ?thesis by (simp add: valid_slug_def)
qed

lemma slugify_company:
  "trim_hyphens (sub_non_alnum (replace_amp (lower (strip s)))) = [] \<Longrightarrow> slugify s = ''company''"
  by (simp add: slugify_def Let_def)

subsection \<open>create\_company.py: main\<close>

text \<open>
  Claim C1. For an issue that names no web site, \<open>fetch_site_text\<close> returns three empty
  strings, and \<open>main\<close>, which unpacks four values, raises \<open>ValueError\<close> after it
  has copied the template folder: the run does not proceed.
\<close>

theorem create_without_website_raises:
  "parse_issue_body ''**Company name:** Acme'' = Inr example_request
   \<and> fetch_site_text example_get (website example_request) 12000 = Inr [[], [], []]
   \<and> fst (create_company_main (example_env ''**Company name:** Acme'') example_world)
       = Inl (ValueError ''not enough values to unpack'')
   \<and> written (snd (create_company_main (example_env ''**Company name:** Acme'') example_world))
       = [CopyTree ''company-template'' ''acme'']"
  by code_simp

text \<open>The same for every issue that names a company and no web site, when the company
  has no folder yet and the template folder exists.\<close>

lemma create_without_website_general:
  assumes "strip (ISSUE_BODY E) \<noteq> []"
    and "parse_issue_body (ISSUE_BODY E) = Inr req"
    and "website req = []"
    and "\<not> path_exists w (slugify (name req))"
    and "map_of (entries w) TEMPLATE_DIR = Some (Dir pg)"
  shows "fst (create_company_main E w) = Inl (ValueError ''not enough values to unpack'')
       \<and> written (snd (create_company_main E w))
           = written w @ [CopyTree TEMPLATE_DIR (slugify (name req))]"
  using assms
  by (simp add: create_company_main_def Let_def path_exists_def copytree_def fetch_site_text_def)

text \<open>
  Claim C7. When the folder named by the slug of the parsed company name exists, the
  create script returns 0 and leaves the repository as it was: nothing is copied, rendered
  or written.
\<close>

theorem create_existing_folder_noop:
  assumes "parse_issue_body (ISSUE_BODY E) = Inr req"
    and "path_exists w (slugify (name req))"
  shows "create_company_main E w = (Inr 0, w)"
  using assms by (simp add: create_company_main_def Let_def)

text \<open>The folder \<open>globex\<close> exists in the example repository.\<close>

theorem create_existing_folder_noop_witness:
  "parse_issue_body (ISSUE_BODY (example_env ''**Company name:** Globex'')) = Inr \<lparr>name = ''Globex'', website = [], tone = ''Professional''\<rparr>
   \<and> path_exists example_world (slugify ''Globex'')
   \<and> create_company_main (example_env ''**Company name:** Globex'') example_world = (Inr 0, example_world)"
proof -
  have a: "parse_issue_body (ISSUE_BODY (example_env ''**Company name:** Globex'')) = Inr \<lparr>name = ''Globex'', website = [], tone = ''Professional''\<rparr>"
    by code_simp
  have b: "path_exists example_world (slugify ''Globex'')"
    by code_simp
  from create_existing_folder_noop [OF a] b a show ?thesis by simp
qed

subsection \<open>create\_company.py: fetch\_site\_text\<close>

lemma blank_is_space: "is_blank c \<Longrightarrow> is_space c"
  by (auto simp: is_blank_def is_space_def)

lemma newline_is_space: "is_newline c \<Longrightarrow> is_space c"
  by (auto simp: is_newline_def is_space_def)

lemma squeeze_blanks_plain: "list_all (\<lambda>c. \<not> is_space c) t \<Longrightarrow> squeeze_blanks t = t"
  by (induction t) (auto dest: blank_is_space)

lemma squeeze_newlines_plain: "list_all (\<lambda>c. \<not> is_space c) t \<Longrightarrow> squeeze_newlines t = t"
  by (induction t) (auto dest: newline_is_space)

lemma strip_plain: "list_all (\<lambda>c. \<not> is_space c) t \<Longrightarrow> strip t = t"
proof (cases "t = []")
  case True
  then show ?thesis by (simp add: strip_def trim_def)
next
  case False
  assume a: "list_all (\<lambda>c. \<not> is_space c) t"
  from False a have "\<not> is_space (hd t)" "\<not> is_space (last t)"
    by (simp_all add: list_all_iff)
  then show ?thesis unfolding strip_def by (rule trim_id)
qed

lemma tidy_plain: "list_all (\<lambda>c. \<not> is_space c) t \<Longrightarrow> tidy t = t"
  by (simp add: tidy_def squeeze_blanks_plain squeeze_newlines_plain strip_plain)

text \<open>
  Claim C9, as amended. When the text of the page, after the runs of blanks and newlines
  are collapsed and the ends trimmed, is longer than the budget, the text returned is its
  first \<open>max_chars\<close> characters and the one-character ellipsis: 12001 characters for
  the default budget.
\<close>

theorem fetch_site_text_truncates:
  assumes "url \<noteq> []"
    and "get (with_scheme url) = Inr p"
    and "max_chars < length (tidy (main_text p))"
  shows "\<exists>t m g. fetch_site_text get url max_chars
                   = Inr [t, m, take max_chars (tidy (main_text p)) @ [ellipsis], g]
               \<and> length (take max_chars (tidy (main_text p)) @ [ellipsis]) = max_chars + 1"
  using assms by (simp add: fetch_site_text_def clamp_text_def Let_def)

text \<open>A text of 20000 letters comes back as 12000 letters and the ellipsis.\<close>

theorem fetch_site_text_truncates_witness:
  "length (main_text long_page) = 20000
   \<and> fetch_site_text long_get ''acme.com'' 12000
       = Inr [[], [], replicate 12000 (CHR ''a'') @ [ellipsis], []]
   \<and> length (replicate 12000 (CHR ''a'') @ [ellipsis]) = 12001"
proof -
  have plain: "list_all (\<lambda>c. \<not> is_space c) (replicate 20000 (CHR ''a''))"
    by (simp add: list_all_iff is_space_def)
  have t: "tidy (main_text long_page) = replicate 20000 (CHR ''a'')"
    using tidy_plain [OF plain] by (simp add: long_page_def)
  have u: "''acme.com'' \<noteq> []" by simp
  have g: "long_get (with_scheme ''acme.com'') = Inr long_page" by (simp add: long_get_def)
  have l: "12000 < length (tidy (main_text long_page))" by (simp add: t)
  have s: "strip [] = []" by (simp add: strip_def trim_def)
  from fetch_site_text_truncates [where url = "''acme.com''" and get = long_get and p = long_page
      and max_chars = 12000, OF u g l] obtain a b c where
    r: "fetch_site_text long_get ''acme.com'' 12000
          = Inr [a, b, take 12000 (tidy (main_text long_page)) @ [ellipsis], c]" by blast
  have "fetch_site_text long_get ''acme.com'' 12000
          = Inr [[], [], replicate 12000 (CHR ''a'') @ [ellipsis], []]"
    using r by (simp add: fetch_site_text_def long_get_def long_page_def s Let_def t [unfolded long_page_def, simplified])
  then show ?thesis by (simp add: long_page_def)
qed

lemma squeeze_blanks_gap:
  assumes "\<not> is_blank a" and "\<not> is_blank b" and "0 < n"
  shows "squeeze_blanks (a # replicate n (CHR '' '') @ [b]) = [a, CHR '' '', b]"
proof -
  have sp: "is_blank (CHR '' '')" by (simp add: is_blank_def)
  have d: "dropWhile is_blank (replicate k (CHR '' '') @ [b]) = [b]" for k
    using assms(2) sp by (induction k) simp_all
  from assms(3) obtain k where "n = Suc k" by (cases n) auto
  then show ?thesis using assms(1,2) sp d [of k] by simp
qed

text \<open>
  Claim C9 as stated fails: a text of 20000 characters, most of them blanks in one run,
  comes back as three characters, without the marker.
\<close>

theorem fetch_site_text_gappy_counterexample:
  "length (main_text gappy_page) = 20000
   \<and> fetch_site_text gappy_get ''acme.com'' 12000 = Inr [[], [], ''a b'', []]"
proof -
  have na: "\<not> is_blank (CHR ''a'')" and nb: "\<not> is_blank (CHR ''b'')"
    by (simp_all add: is_blank_def)
  have "squeeze_blanks (CHR ''a'' # replicate 19998 (CHR '' '') @ [CHR ''b'']) = ''a b''"
    by (rule squeeze_blanks_gap [OF na nb]) simp
  then have sq: "squeeze_blanks (main_text gappy_page) = ''a b''"
    by (simp add: gappy_page_def)
  have t: "tidy (main_text gappy_page) = ''a b''"
    unfolding tidy_def sq by code_simp
  have s: "strip [] = []" by (simp add: strip_def trim_def)
  have "fetch_site_text gappy_get ''acme.com'' 12000 = Inr [[], [], ''a b'', []]"
    using t by (simp add: fetch_site_text_def gappy_get_def clamp_text_def s Let_def gappy_page_def)
  then show ?thesis by (simp add: gappy_page_def)
qed

subsection \<open>create\_company.py: openai\_summary without a key\<close>

lemma strip_Nil: "strip [] = []"
  by (simp add: strip_def trim_def)

lemma openai_summary_without_key_trims:
  assumes "strip key = []"
  shows "openai_summary key post u f company title meta_desc page_text =
           (Inr (if 40 \<le> length (strip meta_desc) then strip meta_desc
                 else if title \<noteq> []
                      then name company @ '' '' @ [em_dash] @
                           '' demo environment based on publicly available information.''
                      else ''Demo environment for this company.''), [])"
proof -
  have "meta_desc = [] \<Longrightarrow> \<not> 40 \<le> length (strip meta_desc)"
    by (simp add: strip_Nil)
  then show ?thesis
    using assms by (auto simp: openai_summary_def fallback_def)
qed

text \<open>The meta description that \<open>fetch_site_text\<close> returns, which is the one the
  create script passes on, is trimmed.\<close>

lemma fetch_site_text_meta_trimmed:
  "fetch_site_text get url max_chars = Inr [t, m, x, g] \<Longrightarrow> strip m = m"
  by (auto simp: fetch_site_text_def Let_def strip_Nil strip_strip
           split: if_splits sum.splits option.splits)

text \<open>
  Claim C3. Without an API key (the variable unset or blank) the function calls nothing
  and returns the fallback: the meta description when it has at least 40 characters,
  otherwise the sentence with the company name when a title was found, otherwise the fixed
  sentence. It returns a string in every case. The meta description is a trimmed text, as
  every one that the create script passes to the function is.
\<close>

theorem openai_summary_without_key:
  assumes "strip key = []"
    and "strip meta_desc = meta_desc"
  shows "openai_summary key post u f company title meta_desc page_text =
           (Inr (if 40 \<le> length meta_desc then meta_desc
                 else if title \<noteq> []
                      then name company @ '' '' @ [em_dash] @
                           '' demo environment based on publicly available information.''
                      else ''Demo environment for this company.''), [])
         \<and> (fetch_site_text get url max_chars = Inr [t, m, x, g] \<longrightarrow> strip m = m)"
  using openai_summary_without_key_trims [OF assms(1), of post u f company title meta_desc page_text]
    assms(2) fetch_site_text_meta_trimmed [of get url max_chars t m x g]
  by simp

text \<open>A blank key: a meta description of 49 characters is returned; with one of 10
  characters the sentence with the company name is returned when there is a title, and the
  fixed sentence when there is none.\<close>

theorem openai_summary_without_key_witness:
  "strip ''  '' = []
   \<and> strip ''Acme builds rocket skates and anvils for coyotes.''
       = ''Acme builds rocket skates and anvils for coyotes.''
   \<and> openai_summary ''  '' example_post example_uniform example_float example_request ''Acme''
        ''Acme builds rocket skates and anvils for coyotes.'' ''page''
      = (Inr ''Acme builds rocket skates and anvils for coyotes.'', [])
   \<and> openai_summary ''  '' example_post example_uniform example_float example_request ''Acme''
        ''Acme Corp.'' ''page''
      = (Inr (''Acme '' @ [em_dash] @ '' demo environment based on publicly available information.''), [])
   \<and> openai_summary ''  '' example_post example_uniform example_float example_request []
        ''Acme Corp.'' ''page''
      = (Inr ''Demo environment for this company.'', [])"
proof -
  have a: "strip ''  '' = []" by code_simp
  have b: "strip ''Acme builds rocket skates and anvils for coyotes.''
             = ''Acme builds rocket skates and anvils for coyotes.''"
    by code_simp
  have c: "strip ''Acme Corp.'' = ''Acme Corp.''" by code_simp
  have n: "name example_request = ''Acme''" by (simp add: example_request_def)
  from openai_summary_without_key [OF a b, of example_post example_uniform example_float
        example_request "''Acme''" "''page''"]
  have 1: "openai_summary ''  '' example_post example_uniform example_float example_request ''Acme''
        ''Acme builds rocket skates and anvils for coyotes.'' ''page''
      = (Inr ''Acme builds rocket skates and anvils for coyotes.'', [])"
    by simp
  from openai_summary_without_key [OF a c, of example_post example_uniform example_float
        example_request "''Acme''" "''page''"]
  have 2: "openai_summary ''  '' example_post example_uniform example_float example_request ''Acme''
        ''Acme Corp.'' ''page''
      = (Inr (''Acme '' @ [em_dash] @ '' demo environment based on publicly available information.''), [])"
    by (simp add: n)
  from openai_summary_without_key [OF a c, of example_post example_uniform example_float
        example_request "[]" "''page''"]
  have 3: "openai_summary ''  '' example_post example_uniform example_float example_request []
        ''Acme Corp.'' ''page''
      = (Inr ''Demo environment for this company.'', [])"
    by simp
  from a b 1 2 3 show ?thesis by (intro conjI)
qed

subsection \<open>archive\_company.py: main\<close>

lemma set_archived_unknown:
  "list_all is_entry sites \<Longrightarrow> JStr company_id \<notin> set (map entry_id sites) \<Longrightarrow>
   set_archived action company_id sites = Inr None"
  by (induction sites) (auto simp: is_entry_def entry_id_def split: json.splits)

lemma site_list_SomeD:
  "site_list w = Some sites \<Longrightarrow>
   \<exists>d. sites_file w = Doc (JObj d) \<and> dict_get_default d ''sites'' (JArr []) = JArr sites
       \<and> list_all is_entry sites"
  by (auto simp: site_list_def split: manifest.splits json.splits if_splits)

lemma archive_error_no_write:
  "isl (fst (archive_company_main t b today w)) \<Longrightarrow> snd (archive_company_main t b today w) = w"
  by (auto simp: archive_company_main_def Let_def
           split: sum.splits prod.splits manifest.splits json.splits option.splits)

text \<open>
  Claim C4. For a manifest that is a list of entries and an issue that parses to an
  action and a company id, when no entry has that id the run raises the ``not found''
  \<open>ValueError\<close> and leaves the repository as it was, the manifest included. More
  generally no run that raises has written anything.
\<close>

theorem archive_unknown_id:
  assumes "parse_issue issue_title issue_body = Inr (action, company_id)"
    and "site_list w = Some sites"
    and "JStr company_id \<notin> set (map entry_id sites)"
  shows "archive_company_main issue_title issue_body today w
           = (Inl (ValueError (not_found_message company_id)), w)
         \<and> (isl (fst (archive_company_main t b today' w')) \<longrightarrow>
              snd (archive_company_main t b today' w') = w')"
proof -
  from site_list_SomeD [OF assms(2)] obtain d where
    d: "sites_file w = Doc (JObj d)" "dict_get_default d ''sites'' (JArr []) = JArr sites"
       "list_all is_entry sites" by blast
  have "set_archived action company_id sites = Inr None"
    using d(3) assms(3) by (rule set_archived_unknown)
  then have "archive_company_main issue_title issue_body today w
           = (Inl (ValueError (not_found_message company_id)), w)"
    using assms(1) d(1,2) by (simp add: archive_company_main_def)
  then show ?thesis using archive_error_no_write by blast
qed

text \<open>Archiving and restoring \<open>initech\<close>, which the example manifest does not list.\<close>

theorem archive_unknown_id_witness:
  "parse_issue ''Archive company: Initech'' ''**Company id:** initech'' = Inr (''archive'', ''initech'')
   \<and> parse_issue ''Restore company: Initech'' ''**Company id:** initech'' = Inr (''restore'', ''initech'')
   \<and> site_list example_world = Some [JObj [(''id'', JStr ''globex''), (''name'', JStr ''Globex''), (''tag'', JStr ''Gold'')]]
   \<and> archive_company_main ''Archive company: Initech'' ''**Company id:** initech'' ''2026-01-01'' example_world
       = (Inl (ValueError (not_found_message ''initech'')), example_world)
   \<and> archive_company_main ''Restore company: Initech'' ''**Company id:** initech'' ''2026-01-01'' example_world
       = (Inl (ValueError (not_found_message ''initech'')), example_world)"
proof -
  have a: "parse_issue ''Archive company: Initech'' ''**Company id:** initech'' = Inr (''archive'', ''initech'')"
    by code_simp
  have r: "parse_issue ''Restore company: Initech'' ''**Company id:** initech'' = Inr (''restore'', ''initech'')"
    by code_simp
  have s: "site_list example_world = Some [JObj [(''id'', JStr ''globex''), (''name'', JStr ''Globex''), (''tag'', JStr ''Gold'')]]"
    by code_simp
  have n: "JStr ''initech'' \<notin> set (map entry_id [JObj [(''id'', JStr ''globex''), (''name'', JStr ''Globex''), (''tag'', JStr ''Gold'')]])"
    by code_simp
  from archive_unknown_id [OF a s n] archive_unknown_id [OF r s n] a r s show ?thesis by blast
qed

subsection \<open>create\_company.py: openai\_summary with a key\<close>

text \<open>
  Claim C2. The function makes at most five attempts and retries as the claim says, but it
  does not return in every case: a 2xx reply whose JSON has another shape than the loop
  expects raises \<open>TypeError\<close> (or \<open>AttributeError\<close>), and a negative
  \<open>retry-after\<close> raises the \<open>ValueError\<close> of \<open>time.sleep\<close>. Only
  \<open>requests.RequestException\<close> is caught.
\<close>

theorem openai_summary_raises:
  "openai_summary ''sk-test'' nested_text_post example_uniform example_float example_request
      ''Acme'' [] [] = (Inl TypeError, [Post 1])
   \<and> openai_summary ''sk-test'' null_output_post example_uniform example_float example_request
      ''Acme'' [] [] = (Inl TypeError, [Post 1])
   \<and> openai_summary ''sk-test'' negative_hint_post example_uniform example_float example_request
      ''Acme'' [] [] = (Inl (ValueError ''sleep length must be non-negative''), [Post 1])"
  by code_simp

text \<open>The parts of the claim that hold: at most five calls of the service, and the
  fallback after four sleeps of 1.5, 3, 6 and 12 seconds plus the jitter when every call
  fails in the network.\<close>

lemma attempts_posts:
  "length (filter is_post (snd (attempts post u f fb attempt done)))
     \<le> length (filter is_post done) + (Suc max_attempts - attempt)"
proof (induction post u f fb attempt "done" rule: attempts.induct)
  case (1 post u f fb attempt don)
  show ?case
  proof (cases "max_attempts < attempt")
    case True
    then show ?thesis by (simp add: attempts.simps [of post u f fb attempt don])
  next
    case False
    show ?thesis
    proof (cases "attempt_once u f fb attempt (post attempt)")
      case (Return v)
      with False show ?thesis by (simp add: attempts.simps [of post u f fb attempt don])
    next
      case (Raise e)
      with False show ?thesis by (simp add: attempts.simps [of post u f fb attempt don])
    next
      case (Retry d)
      show ?thesis
      proof (cases "d < 0")
        case True
        with False Retry show ?thesis by (simp add: attempts.simps [of post u f fb attempt don])
      next
        case neg: False
        from "1.IH" [OF False Retry neg] False Retry neg show ?thesis
          by (simp add: attempts.simps [of post u f fb attempt don])
      qed
    qed
  qed
qed

lemma openai_summary_at_most_five_posts:
  "length (filter is_post (snd (openai_summary key post u f company title meta_desc page_text))) \<le> 5"
  using attempts_posts [of post u f "fallback company title meta_desc" 1 "[]"]
  by (simp add: openai_summary_def max_attempts_def)

lemma openai_summary_network_down:
  "openai_summary ''sk-test'' example_post example_uniform example_float example_request [] [] []
     = (Inr ''Demo environment for this company.'',
        [Post 1, Sleep 2, Post 2, Sleep (7 / 2), Post 3, Sleep (13 / 2), Post 4, Sleep (25 / 2), Post 5])"
  by code_simp

text \<open>The function returns a string whenever every 2xx reply with a JSON body has the
  shape the loop reads and no sleep is negative.\<close>

lemma attempt_once_Raise:
  "attempt_once u f fb attempt rep = Raise e \<Longrightarrow>
   \<exists>r data. rep = Response r \<and> 200 \<le> status_code r \<and> status_code r < 300
            \<and> payload r = Json data \<and> summary_of data = Inl e"
  by (auto simp: attempt_once_def Let_def split: reply.splits if_splits body.splits sum.splits)

lemma attempt_once_Retry:
  "attempt_once u f fb attempt rep = Retry d \<Longrightarrow>
   attempt < max_attempts \<and> (d = backoff u attempt \<or> (\<exists>h. f h = Some d))"
  by (auto simp: attempt_once_def Let_def
           split: reply.splits if_splits body.splits sum.splits option.splits)

lemma backoff_nonneg: "0 \<le> u attempt \<Longrightarrow> 0 \<le> backoff u attempt"
  by (simp add: backoff_def base_sleep_def)

lemma attempts_returns:
  assumes ok: "\<And>n r data. post n = Response r \<Longrightarrow> payload r = Json data \<Longrightarrow> \<exists>s. summary_of data = Inr s"
    and jitter: "\<And>n. 0 \<le> u n"
    and hint: "\<And>h d. f h = Some d \<Longrightarrow> 0 \<le> d"
  shows "\<exists>s. fst (attempts post u f fb attempt don) = Inr s"
proof (induction k \<equiv> "Suc max_attempts - attempt" arbitrary: attempt don)
  case 0
  then have "max_attempts < attempt" by simp
  then show ?case by (simp add: attempts.simps [of post u f fb attempt don])
next
  case (Suc k)
  show ?case
  proof (cases "max_attempts < attempt")
    case True
    then show ?thesis by (simp add: attempts.simps [of post u f fb attempt don])
  next
    case False
    show ?thesis
    proof (cases "attempt_once u f fb attempt (post attempt)")
      case (Return v)
      with False show ?thesis by (simp add: attempts.simps [of post u f fb attempt don])
    next
      case (Raise e)
      from attempt_once_Raise [OF this] ok have False by fastforce
      then show ?thesis ..
    next
      case (Retry d)
      from attempt_once_Retry [OF this] jitter [of attempt] hint have "0 \<le> d"
        by (auto intro: backoff_nonneg)
      moreover have "k = Suc max_attempts - Suc attempt" using Suc.hyps(2) by simp
      from Suc.hyps(1) [OF this]
      obtain s where "fst (attempts post u f fb (Suc attempt) (don @ [Post attempt, Sleep d])) = Inr s"
        by blast
      ultimately show ?thesis
        using False Retry by (simp add: attempts.simps [of post u f fb attempt don])
    qed
  qed
qed

lemma openai_summary_returns:
  assumes "\<And>n r data. post n = Response r \<Longrightarrow> payload r = Json data \<Longrightarrow> \<exists>s. summary_of data = Inr s"
    and "\<And>n. 0 \<le> u n"
    and "\<And>h d. f h = Some d \<Longrightarrow> 0 \<le> d"
  shows "\<exists>s. fst (openai_summary key post u f company title meta_desc page_text) = Inr s"
  using attempts_returns [where post = post and u = u and f = f
      and fb = "fallback company title meta_desc" and attempt = 1 and don = "[]", OF assms]
  by (simp add: openai_summary_def)

subsection \<open>create\_company.py: upsert\_sites\_json\<close>

lemma map_of_dict_set: "map_of (dict_set d k v) k' = (if k' = k then Some v else map_of d k')"
  by (induction d) auto

lemma map_of_dict_setdefault:
  "map_of (dict_setdefault d k v) k' =
     (if k' = k then Some (case map_of d k of None \<Rightarrow> v | Some x \<Rightarrow> x) else map_of d k')"
  by (auto simp: dict_setdefault_def map_add_def split: option.splits)

lemma map_of_fill_entry:
  "map_of (fill_entry slug nm summ e) k =
     (if k = ''logoUrl'' then Some (case map_of e ''logoUrl'' of
                                      None \<Rightarrow> JStr (logo_url slug)
                                    | Some x \<Rightarrow> x)
      else if k = ''tag'' then Some (case map_of e ''tag'' of None \<Rightarrow> JStr ''Demo'' | Some x \<Rightarrow> x)
      else if k = ''description'' then Some (JStr summ)
      else if k = ''name'' then Some (JStr nm)
      else map_of e k)"
  by (simp add: fill_entry_def map_of_dict_setdefault map_of_dict_set)

lemma find_site_first:
  "list_all is_entry sites \<Longrightarrow> i < length sites \<Longrightarrow> entry_id (sites ! i) = JStr slug \<Longrightarrow>
   \<forall>j<i. entry_id (sites ! j) \<noteq> JStr slug \<Longrightarrow> find_site slug sites = Inr (Some i)"
proof (induction sites arbitrary: i)
  case Nil
  then show ?case by simp
next
  case (Cons s ss)
  from Cons.prems(1) obtain d where s: "s = JObj d" by (cases s) (auto simp: is_entry_def)
  show ?case
  proof (cases i)
    case 0
    with Cons.prems(3) s show ?thesis by (simp add: entry_id_def)
  next
    case (Suc k)
    from Cons.prems(4) Suc have "entry_id ((s # ss) ! 0) \<noteq> JStr slug" by blast
    then have ne: "dict_get d ''id'' \<noteq> JStr slug" using s by (simp add: entry_id_def)
    have "\<forall>j<k. entry_id (ss ! j) \<noteq> JStr slug"
    proof (intro allI impI)
      fix j assume "j < k"
      then have "Suc j < i" using Suc by simp
      with Cons.prems(4) have "entry_id ((s # ss) ! Suc j) \<noteq> JStr slug" by blast
      then show "entry_id (ss ! j) \<noteq> JStr slug" by simp
    qed
    with Cons.IH [of k] Cons.prems Suc have "find_site slug ss = Inr (Some k)" by simp
    with s ne Suc show ?thesis by simp
  qed
qed

lemma list_all_update: "list_all P xs \<Longrightarrow> P x \<Longrightarrow> list_all P (xs[i := x])"
  by (induction xs arbitrary: i) (auto split: nat.splits)

lemma upsert_step:
  assumes sl: "site_list w = Some sites"
    and assets: "map_of (entries w) ''assets'' = Some (Dir pg)"
    and i: "i < length sites"
    and e: "sites ! i = JObj e"
    and id: "dict_get e ''id'' = JStr slug"
    and first: "\<forall>j<i. entry_id (sites ! j) \<noteq> JStr slug"
  shows "\<exists>w'. upsert_sites_json slug nm summ today w = (Inr (), w')
           \<and> site_list w' = Some (sites[i := JObj (fill_entry slug nm summ e)])
           \<and> entries w' = entries w"
proof -
  from site_list_SomeD [OF sl] obtain d where
    d: "sites_file w = Doc (JObj d)" "dict_get_default d ''sites'' (JArr []) = JArr sites"
       "list_all is_entry sites" by blast
  have mk: "mkdir_assets w = Inr w" using assets by (simp add: mkdir_assets_def)
  have "entry_id (sites ! i) = JStr slug" using e id by (simp add: entry_id_def)
  with find_site_first [OF d(3) i _ first] have f: "find_site slug sites = Inr (Some i)" by simp
  let ?sites2 = "sites[i := JObj (fill_entry slug nm summ e)]"
  let ?data = "JObj (dict_set (dict_set d ''updated'' (JStr today)) ''sites'' (JArr ?sites2))"
  have r: "upsert_sites_json slug nm summ today w = (Inr (), write_sites ?data w)"
    using mk d(1,2) f e by (simp add: upsert_sites_json_def Let_def fill_json_def)
  have "list_all is_entry ?sites2"
    using d(3) by (rule list_all_update) (simp add: is_entry_def)
  then have "site_list (write_sites ?data w) = Some ?sites2"
    by (simp add: site_list_def write_sites_def dict_get_default_def map_of_dict_set)
  moreover have "entries (write_sites ?data w) = entries w" by (simp add: write_sites_def)
  ultimately show ?thesis using r by blast
qed

text \<open>
  Claim C6. For a manifest that is a list of entries, let the first entry with the id be
  at position \<open>i\<close>. A call of upsert succeeds and changes the list at position \<open>i\<close>
  only: there \<open>name\<close> and \<open>description\<close> are the values supplied, \<open>tag\<close> and
  \<open>logoUrl\<close> keep the value they had and get the default when they had none. A second
  call, with other values, overwrites \<open>name\<close> and \<open>description\<close> again and leaves
  \<open>tag\<close> and \<open>logoUrl\<close> as the first call left them.
\<close>

theorem upsert_existing_entry:
  assumes sl: "site_list w = Some sites"
    and assets: "map_of (entries w) ''assets'' = Some (Dir pg)"
    and i: "i < length sites"
    and e: "sites ! i = JObj e"
    and id: "dict_get e ''id'' = JStr slug"
    and first: "\<forall>j<i. entry_id (sites ! j) \<noteq> JStr slug"
  shows "\<exists>w1 w2 e1 e2.
           upsert_sites_json slug nm1 summ1 today1 w = (Inr (), w1)
         \<and> site_list w1 = Some (sites[i := JObj e1])
         \<and> map_of e1 ''name'' = Some (JStr nm1)
         \<and> map_of e1 ''description'' = Some (JStr summ1)
         \<and> map_of e1 ''tag'' = Some (case map_of e ''tag'' of None \<Rightarrow> JStr ''Demo'' | Some v \<Rightarrow> v)
         \<and> map_of e1 ''logoUrl'' = Some (case map_of e ''logoUrl'' of
                                            None \<Rightarrow> JStr (logo_url slug)
                                          | Some v \<Rightarrow> v)
         \<and> upsert_sites_json slug nm2 summ2 today2 w1 = (Inr (), w2)
         \<and> site_list w2 = Some (sites[i := JObj e2])
         \<and> map_of e2 ''name'' = Some (JStr nm2)
         \<and> map_of e2 ''description'' = Some (JStr summ2)
         \<and> map_of e2 ''tag'' = map_of e1 ''tag''
         \<and> map_of e2 ''logoUrl'' = map_of e1 ''logoUrl''"
proof -
  let ?e1 = "fill_entry slug nm1 summ1 e"
  let ?e2 = "fill_entry slug nm2 summ2 ?e1"
  let ?s1 = "sites[i := JObj ?e1]"
  from upsert_step [OF sl assets i e id first, of nm1 summ1 today1] obtain w1 where
    w1: "upsert_sites_json slug nm1 summ1 today1 w = (Inr (), w1)"
        "site_list w1 = Some ?s1" "entries w1 = entries w" by blast
  have assets1: "map_of (entries w1) ''assets'' = Some (Dir pg)" using assets w1(3) by simp
  have i1: "i < length ?s1" using i by simp
  have e1: "?s1 ! i = JObj ?e1" using i by simp
  have id1: "dict_get ?e1 ''id'' = JStr slug"
    using id by (simp add: dict_get_def map_of_fill_entry)
  have first1: "\<forall>j<i. entry_id (?s1 ! j) \<noteq> JStr slug" using first by simp
  from upsert_step [OF w1(2) assets1 i1 e1 id1 first1, of nm2 summ2 today2] obtain w2 where
    w2: "upsert_sites_json slug nm2 summ2 today2 w1 = (Inr (), w2)"
        "site_list w2 = Some (?s1[i := JObj ?e2])" by blast
  have s2: "?s1[i := JObj ?e2] = sites[i := JObj ?e2]" by simp
  have "map_of ?e2 ''tag'' = map_of ?e1 ''tag''" "map_of ?e2 ''logoUrl'' = map_of ?e1 ''logoUrl''"
    by (simp_all add: map_of_fill_entry)
  moreover have "map_of ?e1 ''name'' = Some (JStr nm1)" "map_of ?e1 ''description'' = Some (JStr summ1)"
      "map_of ?e2 ''name'' = Some (JStr nm2)" "map_of ?e2 ''description'' = Some (JStr summ2)"
    by (simp_all add: map_of_fill_entry)
  moreover have "map_of ?e1 ''tag'' = Some (case map_of e ''tag'' of None \<Rightarrow> JStr ''Demo'' | Some v \<Rightarrow> v)"
    "map_of ?e1 ''logoUrl'' = Some (case map_of e ''logoUrl'' of
                                            None \<Rightarrow> JStr (logo_url slug)
                                          | Some v \<Rightarrow> v)"
    by (simp_all add: map_of_fill_entry)
  ultimately show ?thesis using w1(1,2) w2(1) w2(2) [unfolded s2] by blast
qed

text \<open>Two calls for \<open>globex\<close>, whose entry in the example manifest has the tag
  \<open>Gold\<close> and no logo.\<close>

theorem upsert_existing_entry_witness:
  "site_list example_world
     = Some [JObj [(''id'', JStr ''globex''), (''name'', JStr ''Globex''), (''tag'', JStr ''Gold'')]]
   \<and> fst (upsert_sites_json ''globex'' ''Globex Corp'' ''Makes anvils.'' ''2026-01-01'' example_world) = Inr ()
   \<and> site_list (snd (upsert_sites_json ''globex'' ''Globex Ltd'' ''Sells anvils.'' ''2026-01-02''
                  (snd (upsert_sites_json ''globex'' ''Globex Corp'' ''Makes anvils.'' ''2026-01-01'' example_world))))
     = Some [JObj [(''id'', JStr ''globex''), (''name'', JStr ''Globex Ltd''), (''tag'', JStr ''Gold''),
                   (''description'', JStr ''Sells anvils.''),
                   (''logoUrl'', JStr ''https://sfdcdemoimages.s3.eu-west-1.amazonaws.com/globex/logo.png'')]]"
proof -
  let ?e = "[(''id'', JStr ''globex''), (''name'', JStr ''Globex''), (''tag'', JStr ''Gold'')]"
  have sl: "site_list example_world = Some [JObj ?e]" by code_simp
  have assets: "map_of (entries example_world) ''assets'' = Some (Dir None)" by code_simp
  have i: "0 < length [JObj ?e]" by simp
  have e: "[JObj ?e] ! 0 = JObj ?e" by simp
  have id: "dict_get ?e ''id'' = JStr ''globex''" by code_simp
  have first: "\<forall>j<0. entry_id ([JObj ?e] ! j) \<noteq> JStr ''globex''" by simp
  from upsert_existing_entry [OF sl assets i e id first,
      of "''Globex Corp''" "''Makes anvils.''" "''2026-01-01''" "''Globex Ltd''" "''Sells anvils.''" "''2026-01-02''"]
  obtain w1 w2 e1 e2 where
    r: "upsert_sites_json ''globex'' ''Globex Corp'' ''Makes anvils.'' ''2026-01-01'' example_world = (Inr (), w1)"
       "upsert_sites_json ''globex'' ''Globex Ltd'' ''Sells anvils.'' ''2026-01-02'' w1 = (Inr (), w2)"
    by blast
  have v: "site_list (snd (upsert_sites_json ''globex'' ''Globex Ltd'' ''Sells anvils.'' ''2026-01-02''
                  (snd (upsert_sites_json ''globex'' ''Globex Corp'' ''Makes anvils.'' ''2026-01-01'' example_world))))
     = Some [JObj [(''id'', JStr ''globex''), (''name'', JStr ''Globex Ltd''), (''tag'', JStr ''Gold''),
                   (''description'', JStr ''Sells anvils.''),
                   (''logoUrl'', JStr ''https://sfdcdemoimages.s3.eu-west-1.amazonaws.com/globex/logo.png'')]]"
    by code_simp
  from r(1) have "fst (upsert_sites_json ''globex'' ''Globex Corp'' ''Makes anvils.'' ''2026-01-01'' example_world) = Inr ()"
    by simp
  with sl v show ?thesis by blast
qed

subsection \<open>archive\_company.py: parse\_issue\<close>
















subsection \<open>generate\_sites.py: main\<close>

lemma py_or_again: "py_or (py_or a b) b = py_or a b"
  by (simp add: py_or_def)

lemma site_entry_again:
  assumes "ex1 (JStr d) = Some (site_entry ex0 d)"
  shows "site_entry ex1 d = site_entry ex0 d"
  using assms
  by (simp add: site_entry_def Let_def dict_get_def dict_get_default_def py_or_again)

lemma site_entry_unknown:
  "ex1 (JStr d) = None \<Longrightarrow> ex0 (JStr d) = None \<Longrightarrow> site_entry ex1 d = site_entry ex0 d"
  by (simp add: site_entry_def)

lemma collect_existing_falsy:
  "collect_existing ss out = Inr m \<Longrightarrow> \<not> truthy k \<Longrightarrow> m k = out k"
proof (induction ss arbitrary: out)
  case Nil
  then show ?case by simp
next
  case (Cons s ss)
  from Cons.prems(1) obtain d where s: "s = JObj d" by (cases s) auto
  show ?case
  proof (cases "truthy (dict_get d ''id'')")
    case True
    with Cons.prems(1) s have "collect_existing ss (out(dict_get d ''id'' \<mapsto> d)) = Inr m"
      by (simp add: Let_def split: if_splits)
    from Cons.IH [OF this Cons.prems(2)] True Cons.prems(2) show ?thesis by auto
  next
    case False
    with Cons.prems(1) s have "collect_existing ss out = Inr m" by (simp add: Let_def)
    from Cons.IH [OF this Cons.prems(2)] show ?thesis .
  qed
qed

lemma load_existing_empty_id: "load_existing w (JStr []) = None"
proof -
  have "collect_existing ss Map.empty = Inr m \<Longrightarrow> m (JStr []) = None" for ss m
    using collect_existing_falsy [of ss Map.empty m "JStr []"] by simp
  then show ?thesis
    by (auto simp: load_existing_def split: manifest.splits json.splits sum.splits)
qed

lemma collect_site_entries:
  "\<exists>m. collect_existing (map (\<lambda>d. JObj (site_entry ex d)) ds) out = Inr m
       \<and> (\<forall>d. m (JStr d) = (if d \<in> set ds \<and> d \<noteq> [] then Some (site_entry ex d) else out (JStr d)))"
proof (induction ds arbitrary: out)
  case Nil
  then show ?case by simp
next
  case (Cons a ds)
  have idf: "dict_get (site_entry ex a) ''id'' = JStr a"
    by (simp add: site_entry_def Let_def dict_get_def)
  show ?case
  proof (cases "a = []")
    case True
    from Cons.IH [of out] obtain m where
      m: "collect_existing (map (\<lambda>d. JObj (site_entry ex d)) ds) out = Inr m"
         "\<forall>d. m (JStr d) = (if d \<in> set ds \<and> d \<noteq> [] then Some (site_entry ex d) else out (JStr d))"
      by blast
    have "collect_existing (map (\<lambda>d. JObj (site_entry ex d)) (a # ds)) out = Inr m"
      using m(1) True idf by (simp add: Let_def)
    moreover have "\<forall>d. m (JStr d) = (if d \<in> set (a # ds) \<and> d \<noteq> [] then Some (site_entry ex d) else out (JStr d))"
      using m(2) True by auto
    ultimately show ?thesis by blast
  next
    case False
    let ?out = "out(JStr a \<mapsto> site_entry ex a)"
    from Cons.IH [of ?out] obtain m where
      m: "collect_existing (map (\<lambda>d. JObj (site_entry ex d)) ds) ?out = Inr m"
         "\<forall>d. m (JStr d) = (if d \<in> set ds \<and> d \<noteq> [] then Some (site_entry ex d) else ?out (JStr d))"
      by blast
    have "collect_existing (map (\<lambda>d. JObj (site_entry ex d)) (a # ds)) out = Inr m"
      using m(1) False idf by (simp add: Let_def)
    moreover have "\<forall>d. m (JStr d) = (if d \<in> set (a # ds) \<and> d \<noteq> [] then Some (site_entry ex d) else out (JStr d))"
      using m(2) False by auto
    ultimately show ?thesis by blast
  qed
qed

lemma load_existing_after:
  assumes "sites_file w = Doc (JObj [(''updated'', JStr t), (''sites'', JArr (map (\<lambda>d. JObj (site_entry ex d)) ds))])"
  shows "load_existing w (JStr d) = (if d \<in> set ds \<and> d \<noteq> [] then Some (site_entry ex d) else None)"
proof -
  from collect_site_entries [of ex ds Map.empty] obtain m where
    m: "collect_existing (map (\<lambda>d. JObj (site_entry ex d)) ds) Map.empty = Inr m"
       "\<forall>d. m (JStr d) = (if d \<in> set ds \<and> d \<noteq> [] then Some (site_entry ex d) else None)"
    by auto
  have "load_existing w = m"
    using assms m(1) by (simp add: load_existing_def dict_get_default_def py_iter_def)
  with m(2) show ?thesis by simp
qed

lemma regenerated_entries:
  assumes "sites_file w1 = Doc (JObj [(''updated'', JStr t), (''sites'', JArr (map (\<lambda>d. JObj (site_entry (load_existing w) d)) ds))])"
    and "d \<in> set ds"
  shows "site_entry (load_existing w1) d = site_entry (load_existing w) d"
proof (cases "d = []")
  case True
  have "load_existing w1 (JStr d) = None" "load_existing w (JStr d) = None"
    using True by (simp_all add: load_existing_empty_id)
  then show ?thesis by (rule site_entry_unknown)
next
  case False
  with load_existing_after [OF assms(1), of d] assms(2)
  have "load_existing w1 (JStr d) = Some (site_entry (load_existing w) d)" by simp
  then show ?thesis by (rule site_entry_again)
qed


lemma mkdir_assets_ok:
  assumes "distinct (map fst (entries w))" and "map_of (entries w) ''assets'' \<noteq> Some File"
  shows "\<exists>wa pg. mkdir_assets w = Inr wa \<and> distinct (map fst (entries wa))
           \<and> map_of (entries wa) ''assets'' = Some (Dir pg) \<and> sites_file wa = sites_file w"
proof (cases "map_of (entries w) ''assets''")
  case None
  then have "''assets'' \<notin> fst ` set (entries w)" by (simp add: map_of_eq_None_iff)
  with None assms(1) show ?thesis by (simp add: mkdir_assets_def map_add_def)
next
  case (Some nd)
  with assms(2) obtain pg where "nd = Dir pg" by (cases nd) auto
  with Some assms(1) show ?thesis by (simp add: mkdir_assets_def)
qed

lemma mkdir_assets_present: "map_of (entries w) ''assets'' = Some (Dir pg) \<Longrightarrow> mkdir_assets w = Inr w"
  by (simp add: mkdir_assets_def)

lemma map_of_listing:
  assumes "distinct (map fst xs)" and "mset ys = mset xs"
  shows "map_of ys = map_of xs"
proof -
  have "mset (map fst ys) = mset (map fst xs)" using assms(2) by (metis mset_map)
  then have "distinct (map fst ys)" using assms(1) by (metis mset_eq_imp_distinct_iff)
  moreover have "set ys = set xs" using assms(2) by (rule mset_eq_setD)
  ultimately show ?thesis using assms(1) by (simp add: map_of_inject_set)
qed

lemma sort_listing: "mset ys = mset xs \<Longrightarrow> sort ys = sort (xs :: string list)"
  by (rule properties_for_sort) simp_all

lemma detect_listing:
  assumes "mset (entries w') = mset (entries w)"
  shows "detect_company_dirs w' = detect_company_dirs w"
proof -
  have "mset (map fst (filter is_company_dir (entries w')))
          = mset (map fst (filter is_company_dir (entries w)))"
    using assms by (metis mset_filter mset_map)
  then show ?thesis unfolding detect_company_dirs_def by (rule sort_listing)
qed

lemma load_existing_cong: "sites_file w' = sites_file w \<Longrightarrow> load_existing w' = load_existing w"
  by (simp add: load_existing_def)

text \<open>
  Claim C5. In a repository root that lists each name once and where \<open>assets\<close> is not
  a regular file, the regeneration succeeds; run again on the repository it left, with the
  entries listed in any order and at any date, it succeeds again and writes the same
  manifest but for the \<open>updated\<close> field. (The manifest written is
  \<open>json.dumps\<close> of the value, so equal values are equal bytes.)
\<close>

theorem regenerate_twice:
  assumes "distinct (map fst (entries w))"
    and "map_of (entries w) ''assets'' \<noteq> Some File"
    and "mset listing = mset (entries (snd (generate_sites_main today1 w)))"
  shows "\<exists>sites w2.
           fst (generate_sites_main today1 w) = Inr ()
         \<and> sites_file (snd (generate_sites_main today1 w))
             = Doc (JObj [(''updated'', JStr today1), (''sites'', JArr sites)])
         \<and> generate_sites_main today2 ((snd (generate_sites_main today1 w))\<lparr>entries := listing\<rparr>)
             = (Inr (), w2)
         \<and> sites_file w2 = Doc (JObj [(''updated'', JStr today2), (''sites'', JArr sites)])"
proof -
  from mkdir_assets_ok [OF assms(1,2)] obtain wa pg where
    wa: "mkdir_assets w = Inr wa" "distinct (map fst (entries wa))"
        "map_of (entries wa) ''assets'' = Some (Dir pg)" by blast
  let ?dirs = "detect_company_dirs wa"
  let ?sites = "map (\<lambda>d. JObj (site_entry (load_existing wa) d)) ?dirs"
  let ?out1 = "JObj [(''updated'', JStr today1), (''sites'', JArr ?sites)]"
  let ?w1 = "write_sites ?out1 wa"
  have run1: "generate_sites_main today1 w = (Inr (), ?w1)"
    using wa(1) by (simp add: generate_sites_main_def Let_def)
  have file1: "sites_file ?w1 = Doc ?out1" by (simp add: write_sites_def)
  let ?w1' = "?w1\<lparr>entries := listing\<rparr>"
  have perm: "mset (entries ?w1') = mset (entries wa)"
    using assms(3) run1 by (simp add: write_sites_def)
  have "map_of (entries ?w1') = map_of (entries wa)"
    using wa(2) perm by (rule map_of_listing)
  then have "map_of (entries ?w1') ''assets'' = Some (Dir pg)" using wa(3) by simp
  then have mk2: "mkdir_assets ?w1' = Inr ?w1'" by (rule mkdir_assets_present)
  have dirs2: "detect_company_dirs ?w1' = ?dirs" using perm by (rule detect_listing)
  have file1': "sites_file ?w1' = Doc ?out1" by (simp add: write_sites_def)
  have "site_entry (load_existing ?w1') d = site_entry (load_existing wa) d" if "d \<in> set ?dirs" for d
    using file1' that by (rule regenerated_entries)
  then have sites2: "map (\<lambda>d. JObj (site_entry (load_existing ?w1') d)) ?dirs = ?sites" by simp
  let ?out2 = "JObj [(''updated'', JStr today2), (''sites'', JArr ?sites)]"
  have run2: "generate_sites_main today2 ?w1' = (Inr (), write_sites ?out2 ?w1')"
    unfolding generate_sites_main_def mk2 by (simp add: Let_def dirs2 sites2)
  have "sites_file (write_sites ?out2 ?w1') = Doc ?out2" by (simp add: write_sites_def)
  with run1 run2 file1 show ?thesis by auto
qed

text \<open>Two runs on the example repository, the second with the entries listed in the
  reverse order and on the next day.\<close>

theorem regenerate_twice_witness:
  "distinct (map fst (entries example_world))
   \<and> map_of (entries example_world) ''assets'' \<noteq> Some File
   \<and> sites_file (snd (generate_sites_main ''2026-01-02''
        ((snd (generate_sites_main ''2026-01-01'' example_world))
           \<lparr>entries := rev (entries (snd (generate_sites_main ''2026-01-01'' example_world)))\<rparr>)))
     = Doc (JObj [(''updated'', JStr ''2026-01-02''),
                  (''sites'', JArr
                     [JObj [(''id'', JStr ''company-template''), (''name'', JStr ''Company Template''),
                            (''path'', JStr ''/company-template/''), (''description'', JStr []),
                            (''tag'', JStr ''Demo''),
                            (''logoUrl'', JStr ''https://sfdcdemoimages.s3.eu-west-1.amazonaws.com/company-template/logo.png''),
                            (''archived'', JBool False)],
                      JObj [(''id'', JStr ''globex''), (''name'', JStr ''Globex''),
                            (''path'', JStr ''/globex/''), (''description'', JStr []),
                            (''tag'', JStr ''Gold''),
                            (''logoUrl'', JStr ''https://sfdcdemoimages.s3.eu-west-1.amazonaws.com/globex/logo.png''),
                            (''archived'', JBool False)]])])"
proof -
  let ?w1 = "snd (generate_sites_main ''2026-01-01'' example_world)"
  have d: "distinct (map fst (entries example_world))" by code_simp
  have a: "map_of (entries example_world) ''assets'' \<noteq> Some File" by code_simp
  have p: "mset (rev (entries ?w1)) = mset (entries ?w1)" by simp
  from regenerate_twice [OF d a p, of "''2026-01-02''"] obtain sites w2 where
    r: "sites_file ?w1 = Doc (JObj [(''updated'', JStr ''2026-01-01''), (''sites'', JArr sites)])"
       "generate_sites_main ''2026-01-02'' (?w1\<lparr>entries := rev (entries ?w1)\<rparr>) = (Inr (), w2)"
       "sites_file w2 = Doc (JObj [(''updated'', JStr ''2026-01-02''), (''sites'', JArr sites)])"
    by blast
  have "sites_file ?w1 = Doc (JObj [(''updated'', JStr ''2026-01-01''),
                  (''sites'', JArr
                     [JObj [(''id'', JStr ''company-template''), (''name'', JStr ''Company Template''),
                            (''path'', JStr ''/company-template/''), (''description'', JStr []),
                            (''tag'', JStr ''Demo''),
                            (''logoUrl'', JStr ''https://sfdcdemoimages.s3.eu-west-1.amazonaws.com/company-template/logo.png''),
                            (''archived'', JBool False)],
                      JObj [(''id'', JStr ''globex''), (''name'', JStr ''Globex''),
                            (''path'', JStr ''/globex/''), (''description'', JStr []),
                            (''tag'', JStr ''Gold''),
                            (''logoUrl'', JStr ''https://sfdcdemoimages.s3.eu-west-1.amazonaws.com/globex/logo.png''),
                            (''archived'', JBool False)]])])"
    by code_simp
  with r(1) have "sites = [JObj [(''id'', JStr ''company-template''), (''name'', JStr ''Company Template''),
                            (''path'', JStr ''/company-template/''), (''description'', JStr []),
                            (''tag'', JStr ''Demo''),
                            (''logoUrl'', JStr ''https://sfdcdemoimages.s3.eu-west-1.amazonaws.com/company-template/logo.png''),
                            (''archived'', JBool False)],
                      JObj [(''id'', JStr ''globex''), (''name'', JStr ''Globex''),
                            (''path'', JStr ''/globex/''), (''description'', JStr []),
                            (''tag'', JStr ''Gold''),
                            (''logoUrl'', JStr ''https://sfdcdemoimages.s3.eu-west-1.amazonaws.com/globex/logo.png''),
                            (''archived'', JBool False)]]"
    by (simp only: manifest.inject json.inject list.inject prod.inject simp_thms)
  with r(2,3) d a show ?thesis by simp
qed

subsection \<open>create\_company.py: the ids in the manifest\<close>

lemma sites_file_mkdir_assets: "mkdir_assets w = Inr w1 \<Longrightarrow> sites_file w1 = sites_file w"
  by (auto simp: mkdir_assets_def split: option.splits node.splits)

lemma sites_file_copytree: "copytree a b w = Inr w1 \<Longrightarrow> sites_file w1 = sites_file w"
  by (auto simp: copytree_def split: option.splits node.splits)

lemma sites_file_save_shot: "sites_file (save_shot slug w) = sites_file w"
  by (simp add: save_shot_def)

lemma sites_file_unlink_shot: "sites_file (unlink_shot slug w) = sites_file w"
  by (simp add: unlink_shot_def split: option.splits)

lemma sites_file_mkdir_screenshots: "mkdir_screenshots w = Inr w1 \<Longrightarrow> sites_file w1 = sites_file w"
  by (auto simp: mkdir_screenshots_def split: sum.splits option.splits dest: sites_file_mkdir_assets)

lemma sites_file_screenshot:
  "sites_file (snd (maybe_take_screenshot br slug url w)) = sites_file w"
  by (auto simp: maybe_take_screenshot_def sites_file_save_shot sites_file_unlink_shot
           split: sum.splits browse_result.splits dest: sites_file_mkdir_screenshots)

lemma sites_file_write_index: "sites_file (write_index dir html w) = sites_file w"
  by (simp add: write_index_def)

lemma manifest_entries_cong: "sites_file w' = sites_file w \<Longrightarrow> manifest_entries w' = manifest_entries w"
  by (simp add: manifest_entries_def)

lemma find_site_SomeD:
  "find_site slug ss = Inr (Some i) \<Longrightarrow> i < length ss \<and> is_entry (ss ! i) \<and> entry_id (ss ! i) = JStr slug"
proof (induction ss arbitrary: i)
  case Nil
  then show ?case by simp
next
  case (Cons s ss)
  from Cons.prems obtain d where s: "s = JObj d" by (cases s) auto
  show ?case
  proof (cases "dict_get d ''id'' = JStr slug")
    case True
    with Cons.prems s show ?thesis by (simp add: is_entry_def entry_id_def)
  next
    case False
    with Cons.prems s obtain k where k: "find_site slug ss = Inr (Some k)" "i = Suc k"
      by (auto split: sum.splits option.splits)
    from Cons.IH [OF k(1)] k(2) show ?thesis by simp
  qed
qed

lemma dict_get_default_set: "dict_get_default (dict_set d k v) k x = v"
  by (simp add: dict_get_default_def map_of_dict_set)

lemma fill_json_id: "is_entry s \<Longrightarrow> entry_id (fill_json slug nm summ s) = entry_id s"
  by (cases s)
     (simp_all add: is_entry_def entry_id_def fill_json_def fill_entry_def dict_get_def
        map_of_dict_set map_of_dict_setdefault)

lemma upsert_entries:
  assumes "x \<in> set (manifest_entries (snd (upsert_sites_json slug nm summ t w)))"
  shows "x \<in> set (manifest_entries w) \<or> entry_id x = JStr slug"
proof (cases "mkdir_assets w")
  case (Inl e)
  with assms show ?thesis by (simp add: upsert_sites_json_def)
next
  case (Inr w1)
  have same: "manifest_entries w1 = manifest_entries w"
    using sites_file_mkdir_assets [OF Inr] by (rule manifest_entries_cong)
  let ?data = "case sites_file w1 of Doc v \<Rightarrow> v | _ \<Rightarrow> JObj [(''updated'', JStr t), (''sites'', JArr [])]"
  show ?thesis
  proof (cases ?data)
    case (JObj d)
    let ?sites = "case dict_get_default d ''sites'' (JArr []) of JArr ss \<Rightarrow> ss | _ \<Rightarrow> []"
    have sub: "set ?sites \<subseteq> set (manifest_entries w1)"
      using JObj by (auto simp: manifest_entries_def dict_get_default_def
                          split: manifest.splits json.splits option.splits)
    show ?thesis
    proof (cases "find_site slug ?sites")
      case (Inl e)
      with assms Inr JObj same show ?thesis
        by (simp add: upsert_sites_json_def Let_def)
    next
      case found: (Inr found)
      let ?new = "JObj [(''id'', JStr slug), (''path'', JStr (''/'' @ slug @ ''/''))]"
      let ?sites1 = "case found of Some i \<Rightarrow> ?sites | None \<Rightarrow> ?sites @ [?new]"
      let ?i = "case found of Some i \<Rightarrow> i | None \<Rightarrow> length ?sites"
      let ?sites2 = "?sites1[?i := fill_json slug nm summ (?sites1 ! ?i)]"
      have res: "manifest_entries (snd (upsert_sites_json slug nm summ t w)) = ?sites2"
        using Inr JObj found
        by (simp add: upsert_sites_json_def Let_def manifest_entries_def write_sites_def
              dict_get_default_set)
      have at: "is_entry (?sites1 ! ?i) \<and> entry_id (?sites1 ! ?i) = JStr slug \<and> ?i < length ?sites1"
      proof (cases found)
        case None
        then show ?thesis by (simp add: is_entry_def entry_id_def dict_get_def nth_append)
      next
        case (Some i)
        with found find_site_SomeD [of slug ?sites i] show ?thesis by simp
      qed
      have others: "set ?sites2 \<subseteq> insert (fill_json slug nm summ (?sites1 ! ?i)) (set ?sites)"
      proof (cases found)
        case None
        then show ?thesis by (simp add: list_update_append)
      next
        case (Some i)
        then show ?thesis using set_update_subset_insert [of ?sites i] by simp
      qed
      from assms res have "x \<in> set ?sites2" by simp
      with others have "x = fill_json slug nm summ (?sites1 ! ?i) \<or> x \<in> set ?sites" by blast
      then show ?thesis
      proof
        assume "x = fill_json slug nm summ (?sites1 ! ?i)"
        with at fill_json_id [of "?sites1 ! ?i" slug nm summ] show ?thesis by simp
      next
        assume "x \<in> set ?sites"
        with sub same show ?thesis by auto
      qed
    qed
  next
    case JNull
    with assms Inr same show ?thesis by (simp add: upsert_sites_json_def)
  next
    case (JBool b)
    with assms Inr same show ?thesis by (simp add: upsert_sites_json_def)
  next
    case (JInt n)
    with assms Inr same show ?thesis by (simp add: upsert_sites_json_def)
  next
    case (JFloat r)
    with assms Inr same show ?thesis by (simp add: upsert_sites_json_def)
  next
    case (JStr s)
    with assms Inr same show ?thesis by (simp add: upsert_sites_json_def)
  next
    case (JArr xs)
    with assms Inr same show ?thesis by (simp add: upsert_sites_json_def)
  qed
qed

lemma finish_company_world:
  "snd (finish_company E req slug four w) = w
   \<or> snd (finish_company E req slug four w) = snd (maybe_take_screenshot (browse E) slug (website req) w)
   \<or> (\<exists>nm summ t html.
         snd (finish_company E req slug four w)
           = snd (upsert_sites_json slug nm summ t
                    (write_index slug html (snd (maybe_take_screenshot (browse E) slug (website req) w)))))"
proof -
  obtain title meta_desc page_text og_image where four: "four = (title, meta_desc, page_text, og_image)"
    by (cases four) auto
  obtain r2 w2 where shot: "maybe_take_screenshot (browse E) slug (website req) w = (r2, w2)"
    by (cases "maybe_take_screenshot (browse E) slug (website req) w") auto
  show ?thesis
  proof (cases "fst (openai_summary (OPENAI_API_KEY E) (http_post E) (uniform E) (float_of E)
                     req title meta_desc page_text)")
    case (Inl e)
    then show ?thesis by (simp add: finish_company_def four)
  next
    case summary: (Inr summary)
    show ?thesis
    proof (cases r2)
      case (Inl e)
      with summary shot show ?thesis by (simp add: finish_company_def four)
    next
      case (Inr found)
      let ?path = "if found = None \<and> og_image \<noteq> [] then Some og_image else found"
      show ?thesis
      proof (cases "\<exists>html. map_of (entries w2) TEMPLATE_DIR = Some (Dir (Some html))")
        case False
        with summary shot Inr show ?thesis
          by (auto simp: finish_company_def four Let_def split: option.splits node.splits)
      next
        case True
        then obtain html where html: "map_of (entries w2) TEMPLATE_DIR = Some (Dir (Some html))" by blast
        let ?out = "render_from_template html req slug summary ?path"
        obtain r4 w4 where up: "upsert_sites_json slug (name req) summary (utc_today E)
                                  (write_index slug ?out w2) = (r4, w4)"
          by (cases "upsert_sites_json slug (name req) summary (utc_today E) (write_index slug ?out w2)") auto
        have "snd (finish_company E req slug four w) = w4"
          using summary shot Inr html up
          by (cases r4) (simp_all add: finish_company_def four Let_def)
        then have "snd (finish_company E req slug four w)
           = snd (upsert_sites_json slug (name req) summary (utc_today E)
                    (write_index slug ?out (snd (maybe_take_screenshot (browse E) slug (website req) w))))"
          using up shot by simp
        then show ?thesis by blast
      qed
    qed
  qed
qed

lemma finish_company_entries:
  assumes "x \<in> set (manifest_entries (snd (finish_company E req slug four w)))"
  shows "x \<in> set (manifest_entries w) \<or> entry_id x = JStr slug"
proof -
  let ?w2 = "snd (maybe_take_screenshot (browse E) slug (website req) w)"
  have w2: "manifest_entries ?w2 = manifest_entries w"
    using sites_file_screenshot by (rule manifest_entries_cong)
  have w3: "manifest_entries (write_index slug html ?w2) = manifest_entries w" for html
    using w2 manifest_entries_cong [OF sites_file_write_index] by simp
  from finish_company_world [of E req slug four w] show ?thesis
  proof (elim disjE exE)
    assume "snd (finish_company E req slug four w) = w"
    with assms show ?thesis by simp
  next
    assume "snd (finish_company E req slug four w) = ?w2"
    with assms w2 show ?thesis by simp
  next
    fix nm summ t html
    assume "snd (finish_company E req slug four w)
              = snd (upsert_sites_json slug nm summ t (write_index slug html ?w2))"
    with assms have "x \<in> set (manifest_entries (snd (upsert_sites_json slug nm summ t (write_index slug html ?w2))))"
      by simp
    from upsert_entries [OF this] w3 show ?thesis by simp
  qed
qed

lemma create_company_entries:
  assumes "x \<in> set (manifest_entries (snd (create_company_main E w)))"
  shows "x \<in> set (manifest_entries w)
       \<or> (\<exists>req. parse_issue_body (ISSUE_BODY E) = Inr req \<and> entry_id x = JStr (slugify (name req)))"
proof (cases "parse_issue_body (ISSUE_BODY E)")
  case (Inl e)
  with assms show ?thesis by (simp add: create_company_main_def split: if_splits)
next
  case (Inr req)
  let ?slug = "slugify (name req)"
  show ?thesis
  proof (cases "copytree TEMPLATE_DIR ?slug w")
    case (Inl e)
    with assms Inr show ?thesis by (simp add: create_company_main_def Let_def split: if_splits)
  next
    case w1: (Inr w1)
    have same: "manifest_entries w1 = manifest_entries w"
      using sites_file_copytree [OF w1] by (rule manifest_entries_cong)
    have "x \<in> set (manifest_entries w) \<or> x \<in> set (manifest_entries w1)
          \<or> (\<exists>four. x \<in> set (manifest_entries (snd (finish_company E req ?slug four w1))))"
      using assms Inr w1
      by (auto simp: create_company_main_def Let_def split: if_splits sum.splits)
    with same finish_company_entries [of x E req ?slug _ w1] Inr show ?thesis by auto
  qed
qed

text \<open>
  Claim C10. For every input, \<open>slugify\<close> returns a string that is not empty, consists
  of lower-case letters, digits and hyphens only, and neither starts nor ends with a hyphen;
  an ampersand is replaced by \<open>and\<close>, so that \<open>Acme & Co\<close> gives \<open>acme-and-co\<close>;
  and an input that reduces to nothing gives \<open>company\<close>. Hence every entry that stands
  in the manifest after a run of the create script either stood there before or has an id
  of the slug format.
\<close>

theorem slugify_format:
  "valid_slug (slugify s)
   \<and> replace_amp (a @ ''&'' @ b) = replace_amp a @ ''and'' @ replace_amp b
   \<and> slugify ''Acme & Co'' = ''acme-and-co''
   \<and> (trim_hyphens (sub_non_alnum (replace_amp (lower (strip s)))) = [] \<longrightarrow> slugify s = ''company'')
   \<and> (\<forall>x \<in> set (manifest_entries (snd (create_company_main E w))).
         x \<in> set (manifest_entries w) \<or> (\<exists>i. entry_id x = JStr i \<and> valid_slug i))"
proof -
  have 1: "replace_amp (a @ ''&'' @ b) = replace_amp a @ ''and'' @ replace_amp b"
    by (simp only: replace_amp_append replace_amp_amp)
  have 2: "\<forall>x \<in> set (manifest_entries (snd (create_company_main E w))).
         x \<in> set (manifest_entries w) \<or> (\<exists>i. entry_id x = JStr i \<and> valid_slug i)"
    using create_company_entries [of _ E w] slugify_valid by blast
  from 1 2 slugify_valid [of s] slugify_example slugify_company [of s] show ?thesis by blast
qed

text \<open>The input \<open>!!!\<close> reduces to nothing; a run for \<open>Acme & Co\<close> on the example
  repository adds the entry \<open>acme-and-co\<close> to the entry \<open>globex\<close>.\<close>

theorem slugify_format_witness:
  "slugify ''!!!'' = ''company''
   \<and> slugify '' R&D  -- Labs 2! '' = ''randd-labs-2''
   \<and> map entry_id (manifest_entries (snd (create_company_main
        (example_env ''**Company name:** Acme & Co\<newline>**Website:** acme.com'') example_world)))
      = [JStr ''globex'', JStr ''acme-and-co'']
   \<and> valid_slug ''acme-and-co''"
proof -
  let ?E = "example_env ''**Company name:** Acme & Co\<newline>**Website:** acme.com''"
  let ?M = "manifest_entries (snd (create_company_main ?E example_world))"
  have a: "trim_hyphens (sub_non_alnum (replace_amp (lower (strip ''!!!'')))) = []"
    by code_simp
  have b: "slugify '' R&D  -- Labs 2! '' = ''randd-labs-2''"
    by code_simp
  have c: "map entry_id ?M = [JStr ''globex'', JStr ''acme-and-co'']"
    by code_simp
  have "\<exists>x\<in>set ?M. x \<notin> set (manifest_entries example_world) \<and> entry_id x = JStr ''acme-and-co''"
    by code_simp
  then obtain x where x: "x \<in> set ?M" "x \<notin> set (manifest_entries example_world)"
      "entry_id x = JStr ''acme-and-co''" by blast
  note all = slugify_format [of "''!!!''" "[]" "[]" ?E example_world]
  from all have company: "slugify ''!!!'' = ''company''" using a by (elim conjE) simp
  from all have "\<forall>x\<in>set ?M. x \<in> set (manifest_entries example_world)
                   \<or> (\<exists>i. entry_id x = JStr i \<and> valid_slug i)"
    by (elim conjE)
  with x(1,2) obtain i where "entry_id x = JStr i" "valid_slug i" by blast
  with x(3) have "valid_slug ''acme-and-co''" by simp
  with company b c show ?thesis by (intro conjI)
qed

end
